theory Spec2Isabelle
  imports Main "HOL-Library.AList"
begin

section \<open>Session lifecycle of the Playwright MCP server: data model\<close>

text \<open>
  A \<open>Server\<close> object is known to the registry only by its identity (\<open>indexOf\<close> compares
  references), so a server is the number of the allocation that made it. The tools of a
  server come from the process options and are the same for every session.
\<close>

type_synonym server = nat

text \<open>
  How a promise settles, with the time it takes in milliseconds: the outcome of
  \<open>server.close()\<close>, which is \<open>oldClose()\<close> followed by \<open>context.close()\<close>; both live
  outside this repository's sources, so the outcome of a release is a parameter
  \<open>release :: server \<Rightarrow> settle\<close> of every operation that calls it.
\<close>

datatype settle = Resolves nat | Rejects nat | Hangs

fun resolves :: "settle \<Rightarrow> bool" where
  "resolves (Resolves t) = True"
| "resolves (Rejects t) = False"
| "resolves Hangs = False"

datatype error = ProvisionError

text \<open>
  The state of the process: the registry \<open>ServerList._servers\<close>, the two maps of
  \<open>startHttpServer\<close> (JavaScript \<open>Map\<close>s keep insertion order and one entry per key:
  association lists updated in place), and the timers the runtime holds (handle, session
  key of the callback's closure, deadline). \<open>closes\<close> and \<open>factory_calls\<close> log the calls
  of \<open>server.close()\<close> and of the server factory, \<open>invocations\<close> the tool handlers
  run on a server; \<open>pending\<close> holds the session keys of the middleware runs suspended at
  \<open>await serverList.create(sessionId)\<close>. \<open>transports\<close> is the \<open>sessions\<close> map of
  \<open>startSSEServer\<close> (session id to the connection of its transport) and \<open>close_handlers\<close>
  the \<open>close\<close> listeners registered on the connections; \<open>exit_timers\<close> are the deadlines of
  the armed timers whose callback is \<open>process.exit\<close>.
\<close>

type_synonym params = "(string \<times> string) list"

record state =
  servers :: "server list"
  sessions :: "(string \<times> server) list"
  sessionTimers :: "(string \<times> nat) list"
  timers :: "(nat \<times> string \<times> nat) list"
  next_server :: nat
  next_timer :: nat
  closes :: "server list"
  factory_calls :: "string option list"
  invocations :: "(server \<times> string \<times> params) list"
  pending :: "string list"
  now :: nat
  transports :: "(string \<times> nat) list"
  close_handlers :: "(nat \<times> string \<times> server) list"
  exit_timers :: "nat list"

definition init :: state where
  "init = \<lparr>servers = [], sessions = [], sessionTimers = [], timers = [],
            next_server = 0, next_timer = 0, closes = [], factory_calls = [],
            invocations = [], pending = [], now = 0, transports = [],
            close_handlers = [], exit_timers = []\<rparr>"

section \<open>The registry: \<open>ServerList\<close>\<close>

text \<open>
  \<open>create\<close>: await the factory, push the server, return it. \<open>provision\<close> tells whether
  the factory succeeds for a session id; when it throws, nothing is pushed. The call is
  split at its \<open>await\<close>: \<open>factory_start\<close> is the call of the factory, \<open>create_finish\<close> what
  runs once its promise has settled.
\<close>

definition factory_start :: "string option \<Rightarrow> state \<Rightarrow> state" where
  "factory_start sessionId st = st\<lparr>factory_calls := factory_calls st @ [sessionId]\<rparr>"

definition create_finish ::
  "(string option \<Rightarrow> bool) \<Rightarrow> string option \<Rightarrow> state \<Rightarrow> (error + server) \<times> state" where
  "create_finish provision sessionId st =
     (if provision sessionId
      then (Inr (next_server st),
            st\<lparr>servers := servers st @ [next_server st], next_server := Suc (next_server st)\<rparr>)
      else (Inl ProvisionError, st))"

definition serverList_create ::
  "(string option \<Rightarrow> bool) \<Rightarrow> string option \<Rightarrow> state \<Rightarrow> (error + server) \<times> state" where
  "serverList_create provision sessionId st =
     create_finish provision sessionId (factory_start sessionId st)"

text \<open>
  \<open>close\<close>: \<open>indexOf\<close> and \<open>splice\<close> remove the first occurrence when there is one; then
  \<open>server.close()\<close> is awaited whether or not the server was found.
\<close>

definition serverList_close :: "(server \<Rightarrow> settle) \<Rightarrow> state \<Rightarrow> server \<Rightarrow> settle \<times> state" where
  "serverList_close release st srv =
     (release srv, st\<lparr>servers := remove1 srv (servers st), closes := closes st @ [srv]\<rparr>)"

text \<open>
  \<open>Promise.all\<close>: rejects as soon as one promise rejects, resolves once all have
  resolved, and stays pending otherwise.
\<close>

fun rejections :: "settle list \<Rightarrow> nat list" where
  "rejections [] = []"
| "rejections (Rejects t # ps) = t # rejections ps"
| "rejections (p # ps) = rejections ps"

fun resolutions :: "settle list \<Rightarrow> nat list" where
  "resolutions [] = []"
| "resolutions (Resolves t # ps) = t # resolutions ps"
| "resolutions (p # ps) = resolutions ps"

definition promise_all :: "settle list \<Rightarrow> settle" where
  "promise_all ps =
     (case rejections ps of
        t # ts \<Rightarrow> Rejects (fold min ts t)
      | [] \<Rightarrow> if Hangs \<in> set ps then Hangs else Resolves (fold max (resolutions ps) 0))"

text \<open>\<open>closeAll\<close>: calls \<open>close()\<close> on every server of the list and awaits them together.\<close>

definition closeAll :: "(server \<Rightarrow> settle) \<Rightarrow> state \<Rightarrow> settle \<times> state" where
  "closeAll release st =
     (promise_all (map release (servers st)), st\<lparr>closes := closes st @ servers st\<rparr>)"

section \<open>The Request/Response adapter: \<open>startHttpServer\<close>\<close>

definition sessionTimeout :: nat where
  "sessionTimeout = 30 * 60 * 1000"

text \<open>
  Koa's \<open>ctx.get(field)\<close> gives the empty string for a header the request does not
  carry; \<open>ctx.get('session-id') || 'default'\<close> then takes the default for every falsy
  value, the empty string included.
\<close>

definition ctx_get :: "string option \<Rightarrow> string" where
  "ctx_get header = (case header of None \<Rightarrow> [] | Some v \<Rightarrow> v)"

definition sessionId_of :: "string option \<Rightarrow> string" where
  "sessionId_of header = (if ctx_get header = [] then ''default'' else ctx_get header)"

text \<open>
  The first half of the session middleware, run with no other request in between:
  look the key up, create and bind a server when there is none.
\<close>

definition getOrCreate ::
  "(string option \<Rightarrow> bool) \<Rightarrow> state \<Rightarrow> string \<Rightarrow> (error + server) \<times> state" where
  "getOrCreate provision st sessionId =
     (case map_of (sessions st) sessionId of
        Some server \<Rightarrow> (Inr server, st)
      | None \<Rightarrow>
          (case serverList_create provision (Some sessionId) st of
             (Inr server, st1) \<Rightarrow>
               (Inr server, st1\<lparr>sessions := AList.update sessionId server (sessions st1)\<rparr>)
           | (Inl e, st1) \<Rightarrow> (Inl e, st1)))"

text \<open>
  The second half: \<open>clearTimeout\<close> on the timer registered for the key, when there is one,
  then \<open>setTimeout\<close> with the session timeout and \<open>sessionTimers.set\<close>.
\<close>

definition clearTimeout :: "nat \<Rightarrow> (nat \<times> string \<times> nat) list \<Rightarrow> (nat \<times> string \<times> nat) list" where
  "clearTimeout h ts = AList.delete h ts"

definition reset_timer :: "state \<Rightarrow> string \<Rightarrow> state" where
  "reset_timer st sessionId =
     (let st1 = (case map_of (sessionTimers st) sessionId of
                   Some h \<Rightarrow> st\<lparr>timers := clearTimeout h (timers st)\<rparr>
                 | None \<Rightarrow> st);
          timer = next_timer st1
      in st1\<lparr>timers := timers st1 @ [(timer, sessionId, now st1 + sessionTimeout)],
             next_timer := Suc timer,
             sessionTimers := AList.update sessionId timer (sessionTimers st1)\<rparr>)"

text \<open>
  The whole middleware of one request, up to \<open>await next()\<close>: the server and the key it
  hands to the routes, or the error thrown by the factory (then no timer is armed).
\<close>

definition middleware ::
  "(string option \<Rightarrow> bool) \<Rightarrow> state \<Rightarrow> string option \<Rightarrow> (error + server \<times> string) \<times> state" where
  "middleware provision st header =
     (let sessionId = sessionId_of header in
      case getOrCreate provision st sessionId of
        (Inr server, st1) \<Rightarrow> (Inr (server, sessionId), reset_timer st1 sessionId)
      | (Inl e, st1) \<Rightarrow> (Inl e, st1))"

text \<open>
  The timer callback, with nothing else running while it awaits the close: when the
  close does not resolve, the lines after the \<open>await\<close> never run.
\<close>

definition on_timeout :: "(server \<Rightarrow> settle) \<Rightarrow> state \<Rightarrow> string \<Rightarrow> state" where
  "on_timeout release st sessionId =
     (case map_of (sessions st) sessionId of
        Some serverToClose \<Rightarrow>
          (case serverList_close release st serverToClose of
             (r, st1) \<Rightarrow>
               if resolves r
               then st1\<lparr>sessions := AList.delete sessionId (sessions st1),
                        sessionTimers := AList.delete sessionId (sessionTimers st1)\<rparr>
               else st1)
      | None \<Rightarrow> st\<lparr>sessionTimers := AList.delete sessionId (sessionTimers st)\<rparr>)"

text \<open>
  The runtime fires a timer it still holds once its deadline has passed: the timer
  leaves the runtime's table and its callback runs.
\<close>

definition fire :: "(server \<Rightarrow> settle) \<Rightarrow> state \<Rightarrow> nat \<Rightarrow> state" where
  "fire release st h =
     (case map_of (timers st) h of
        Some (sessionId, deadline) \<Rightarrow>
          if deadline \<le> now st
          then on_timeout release (st\<lparr>timers := clearTimeout h (timers st)\<rparr>) sessionId
          else st
      | None \<Rightarrow> st)"

definition due :: "state \<Rightarrow> nat list" where
  "due st = map fst (filter (\<lambda>(h, sessionId, deadline). deadline \<le> now st) (timers st))"

definition expire :: "(server \<Rightarrow> settle) \<Rightarrow> state \<Rightarrow> state" where
  "expire release st = foldl (fire release) st (due st)"

definition advance :: "(server \<Rightarrow> settle) \<Rightarrow> nat \<Rightarrow> state \<Rightarrow> state" where
  "advance release t st = expire release (st\<lparr>now := t\<rparr>)"

text \<open>
  Requests in flight together. A request whose key is bound runs the middleware in one
  piece; one whose key is not bound calls the factory and is suspended until the
  factory's promise settles, and other requests run in between. \<open>mw_begin\<close> is the
  middleware up to that point, \<open>mw_resume\<close> the rest of it for the i-th suspended run.
\<close>

definition mw_begin :: "state \<Rightarrow> string option \<Rightarrow> state" where
  "mw_begin st header =
     (let sessionId = sessionId_of header in
      case map_of (sessions st) sessionId of
        Some server \<Rightarrow> reset_timer st sessionId
      | None \<Rightarrow> (factory_start (Some sessionId) st)\<lparr>pending := pending st @ [sessionId]\<rparr>)"

definition mw_resume :: "(string option \<Rightarrow> bool) \<Rightarrow> state \<Rightarrow> nat \<Rightarrow> state" where
  "mw_resume provision st i =
     (if i < length (pending st)
      then
        (let sessionId = pending st ! i;
             st0 = st\<lparr>pending := take i (pending st) @ drop (Suc i) (pending st)\<rparr>
         in case create_finish provision (Some sessionId) st0 of
              (Inr server, st1) \<Rightarrow>
                reset_timer (st1\<lparr>sessions := AList.update sessionId server (sessions st1)\<rparr>)
                  sessionId
            | (Inl e, st1) \<Rightarrow> st1)
      else st)"

datatype event = Request "string option" | FactoryDone nat | Tick nat | Timeout nat

fun step :: "(string option \<Rightarrow> bool) \<Rightarrow> (server \<Rightarrow> settle) \<Rightarrow> state \<Rightarrow> event \<Rightarrow> state" where
  "step provision release st (Request header) = mw_begin st header"
| "step provision release st (FactoryDone i) = mw_resume provision st i"
| "step provision release st (Tick d) = st\<lparr>now := now st + d\<rparr>"
| "step provision release st (Timeout h) = fire release st h"

definition run ::
  "(string option \<Rightarrow> bool) \<Rightarrow> (server \<Rightarrow> settle) \<Rightarrow> event list \<Rightarrow> state \<Rightarrow> state" where
  "run provision release evs st = foldl (step provision release) st evs"


section \<open>The dispatch layer: \<open>callTool\<close> and the routes\<close>

text \<open>
  A tool is its schema and its handler. A handler returns a result (content items as
  pairs of type and text, and the \<open>isError\<close> flag) or throws; of a thrown value the code
  reads \<open>error.message\<close> and \<open>String(error)\<close>. The browser a handler drives is outside the
  model: the state records that the handler ran.
\<close>

record input_schema =
  dollar_schema :: "string option"
  properties :: "(string \<times> string) list option"
  required :: "string list option"

record tool_schema =
  name :: string
  description :: "string option"
  inputSchema :: "input_schema option"

record tool_result =
  content :: "(string \<times> string) list"
  isError :: bool

datatype thrown = Thrown (message: string) (as_string: string)

datatype handled = Returns tool_result | Throws thrown

record tool =
  schema :: tool_schema
  handle :: "params \<Rightarrow> handled"

definition dquote :: string where
  "dquote = [CHR 0x22]"

text \<open>\<open>new Error(m)\<close>, whose \<open>String\<close> is \<open>Error\<close> when the message is empty.\<close>

definition new_Error :: "string \<Rightarrow> thrown" where
  "new_Error m = Thrown m (if m = [] then ''Error'' else ''Error: '' @ m)"

text \<open>\<open>String(error.message || error)\<close>\<close>

definition error_text :: "thrown \<Rightarrow> string" where
  "error_text e = (if message e \<noteq> [] then message e else as_string e)"

text \<open>\<open>(result as any).content?.find((c: any) => c.type === 'text')?.text\<close>\<close>

definition errorContent :: "tool_result \<Rightarrow> string option" where
  "errorContent result = map_option snd (find (\<lambda>c. fst c = ''text'') (content result))"

text \<open>
  \<open>callTool\<close> throws \<open>new Error(m)\<close> (\<open>Inl m\<close>) or returns the result. An unknown tool
  throws before the \<open>try\<close>; an \<open>isError\<close> result is thrown inside it and thrown again by
  the \<open>catch\<close>, as is whatever the handler throws.
\<close>

definition callTool ::
  "tool list \<Rightarrow> state \<Rightarrow> server \<Rightarrow> string \<Rightarrow> params \<Rightarrow> (string + tool_result) \<times> state" where
  "callTool tools st server toolName args =
     (case find (\<lambda>tool. name (schema tool) = toolName) tools of
        None \<Rightarrow> (Inl (''Tool '' @ dquote @ toolName @ dquote @ '' not found''), st)
      | Some tool \<Rightarrow>
          (let st1 = st\<lparr>invocations := invocations st @ [(server, toolName, args)]\<rparr> in
           case handle tool args of
             Throws e \<Rightarrow> (Inl (error_text e), st1)
           | Returns result \<Rightarrow>
               if isError result
               then (Inl (error_text
                       (new_Error
                          (case errorContent result of
                             Some t \<Rightarrow>
                               if t \<noteq> [] then t
                               else ''Tool '' @ dquote @ toolName @ dquote @ '' execution failed''
                           | None \<Rightarrow>
                               ''Tool '' @ dquote @ toolName @ dquote @ '' execution failed''))),
                     st1)
               else (Inr result, st1)))"

text \<open>
  The response envelope of the tool routes. In the \<open>catch\<close> of a route the error is the
  \<open>Error\<close> with message \<open>m\<close> that \<open>callTool\<close> has thrown.
\<close>

datatype envelope = Success tool_result | Failure string

definition envelope_of :: "string + tool_result \<Rightarrow> nat \<times> envelope" where
  "envelope_of r =
     (case r of
        Inr result \<Rightarrow> (200, Success result)
      | Inl m \<Rightarrow> (500, Failure (error_text (new_Error m))))"

text \<open>\<open>router.post('/tools/:toolName')\<close>, with \<open>ctx.request.body || {}\<close> for the parameters.\<close>

definition post_tool ::
  "tool list \<Rightarrow> state \<Rightarrow> server \<Rightarrow> string \<Rightarrow> params option \<Rightarrow> (nat \<times> envelope) \<times> state" where
  "post_tool tools st server toolName body =
     (let params = (case body of Some b \<Rightarrow> b | None \<Rightarrow> []) in
      case callTool tools st server toolName params of
        (r, st1) \<Rightarrow> (envelope_of r, st1))"

text \<open>\<open>router.get('/tools/browser_tab_list')\<close>\<close>

definition get_tab_list ::
  "tool list \<Rightarrow> state \<Rightarrow> server \<Rightarrow> (nat \<times> envelope) \<times> state" where
  "get_tab_list tools st server =
     (case callTool tools st server ''browser_tab_list'' [] of
        (r, st1) \<Rightarrow> (envelope_of r, st1))"

subsection \<open>The discovery route: \<open>router.get('/openapi.json')\<close>\<close>

text \<open>
  One path item per tool schema, written into the \<open>paths\<close> object under \<open>/tools/\<close>
  followed by the tool's name: a later schema of the same name replaces the earlier
  item. The header parameter and the two responses of an operation are literals of the
  source and the same for every tool.
\<close>

datatype http_method = GET | HEAD | POST | OPTIONS | OtherMethod

record request_body =
  body_required :: bool
  body_schema :: input_schema

record operation =
  tags :: "string list"
  summary :: string
  operationId :: string
  header_parameter :: string
  requestBody :: "request_body option"

record openapi_spec =
  info_version :: string
  server_url :: string
  paths :: "(string \<times> http_method \<times> operation) list"

definition hasProperties :: "input_schema \<Rightarrow> bool" where
  "hasProperties s = (case properties s of Some ps \<Rightarrow> ps \<noteq> [] | None \<Rightarrow> False)"

definition isRequired :: "input_schema \<Rightarrow> bool" where
  "isRequired s = (case required s of Some rs \<Rightarrow> rs \<noteq> [] | None \<Rightarrow> False)"

definition isGetOperation :: "tool_schema \<Rightarrow> bool" where
  "isGetOperation t = (name t = ''browser_tab_list'')"

definition path_item :: "tool_schema \<Rightarrow> http_method \<times> operation" where
  "path_item t =
     (if isGetOperation t then GET else POST,
      \<lparr>tags = [''Tools''],
       summary = (case description t of
                    Some d \<Rightarrow> if d \<noteq> [] then d else ''Execute '' @ name t
                  | None \<Rightarrow> ''Execute '' @ name t),
       operationId = name t,
       header_parameter = ''Session-Id'',
       requestBody =
         (case inputSchema t of
            Some s \<Rightarrow>
              if \<not> isGetOperation t \<and> (hasProperties s \<or> isRequired s)
              then Some \<lparr>body_required = isRequired s,
                         body_schema = s\<lparr>dollar_schema := None\<rparr>\<rparr>
              else None
          | None \<Rightarrow> None)\<rparr>)"

definition openapi ::
  "string \<Rightarrow> string \<Rightarrow> tool list \<Rightarrow> openapi_spec" where
  "openapi version port tools =
     \<lparr>info_version = version,
      server_url = ''http://localhost:'' @ port,
      paths = fold (\<lambda>t ps. AList.update (''/tools/'' @ name t) (path_item t) ps)
                (map schema tools) []\<rparr>"

subsection \<open>One request through the application\<close>

text \<open>
  The application runs four middlewares in the order of their \<open>app.use\<close>: \<open>cors\<close>,
  \<open>bodyParser\<close>, the session middleware, the router. The first two are libraries; of
  them the model has what decides whether the session middleware is reached. \<open>cors\<close>
  answers a preflight itself (an \<open>OPTIONS\<close> request carrying the preflight headers:
  status 204, \<open>next\<close> is not called) and hands every other request on. \<open>bodyParser\<close>
  throws when the body cannot be parsed (status 400 for malformed JSON, 413 for a body
  too large), and Koa answers with that status; otherwise it hands on the parsed body,
  if the request has one. When the session middleware throws, Koa answers with its own
  status 500 and no route runs.
\<close>

datatype path = ToolsPath string | OpenApiPath | OtherPath

datatype raw_body = Parsed "params option" | Unparsable nat

record request =
  req_method :: http_method
  req_path :: path
  session_header :: "string option"
  preflight_headers :: bool
  req_body :: raw_body

text \<open>
  The router: \<open>router.post('/tools/:toolName')\<close>, \<open>router.get('/tools/browser_tab_list')\<close>
  and \<open>router.get('/openapi.json')\<close>, a \<open>get\<close> route serving \<open>HEAD\<close> as well. A request
  that matches no route is left to the router's own answer (\<open>Unrouted\<close>: its 404 or
  405). Nothing in the model of the discovery route throws, so its \<open>catch\<close> has no branch
  here.
\<close>

datatype route = PostTool string "params option" | GetTabList | GetOpenApi | NoRoute

definition match_route :: "http_method \<Rightarrow> path \<Rightarrow> params option \<Rightarrow> route" where
  "match_route m p body =
     (case p of
        ToolsPath toolName \<Rightarrow>
          if m = POST then PostTool toolName body
          else if (m = GET \<or> m = HEAD) \<and> toolName = ''browser_tab_list'' then GetTabList
          else NoRoute
      | OpenApiPath \<Rightarrow> if m = GET \<or> m = HEAD then GetOpenApi else NoRoute
      | OtherPath \<Rightarrow> NoRoute)"

datatype response =
    ToolResponse "nat \<times> envelope"
  | SpecResponse nat openapi_spec
  | KoaError nat
  | CorsPreflight nat
  | Unrouted

definition dispatch ::
  "string \<Rightarrow> string \<Rightarrow> tool list \<Rightarrow> state \<Rightarrow> server \<Rightarrow> route \<Rightarrow> response \<times> state" where
  "dispatch version port tools st server rt =
     (case rt of
        PostTool toolName body \<Rightarrow>
          (case post_tool tools st server toolName body of (r, st1) \<Rightarrow> (ToolResponse r, st1))
      | GetTabList \<Rightarrow>
          (case get_tab_list tools st server of (r, st1) \<Rightarrow> (ToolResponse r, st1))
      | GetOpenApi \<Rightarrow> (SpecResponse 200 (openapi version port tools), st)
      | NoRoute \<Rightarrow> (Unrouted, st))"

definition serve ::
  "(string option \<Rightarrow> bool) \<Rightarrow> string \<Rightarrow> string \<Rightarrow> tool list \<Rightarrow> state \<Rightarrow> request \<Rightarrow>
     response \<times> state" where
  "serve provision version port tools st req =
     (if req_method req = OPTIONS \<and> preflight_headers req then (CorsPreflight 204, st)
      else
        (case req_body req of
           Unparsable status \<Rightarrow> (KoaError status, st)
         | Parsed body \<Rightarrow>
             (case middleware provision st (session_header req) of
                (Inl e, st1) \<Rightarrow> (KoaError 500, st1)
              | (Inr (server, sessionId), st1) \<Rightarrow>
                  dispatch version port tools st1 server
                    (match_route (req_method req) (req_path req) body))))"

section \<open>The Per-Connection adapter: \<open>startSSEServer\<close>\<close>

text \<open>
  A \<open>POST\<close> carries the \<open>sessionId\<close> query parameter (\<open>searchParams.get\<close> gives \<open>null\<close>
  when it is missing); a \<open>GET\<close> opens a connection, for which the SDK's transport draws
  a session id. The \<open>GET\<close> branch is split at \<open>await serverList.create(sessionId)\<close>.
\<close>

datatype sse_response = Status nat string | PostHandled nat | Connected server | CreateFailed

definition sse_post :: "state \<Rightarrow> string option \<Rightarrow> sse_response \<times> state" where
  "sse_post st param =
     (case param of
        None \<Rightarrow> (Status 400 ''Missing sessionId'', st)
      | Some sessionId \<Rightarrow>
          if sessionId = [] then (Status 400 ''Missing sessionId'', st)
          else
            (case map_of (transports st) sessionId of
               None \<Rightarrow> (Status 404 ''Session not found'', st)
             | Some transport \<Rightarrow> (PostHandled transport, st)))"

definition sse_accept :: "state \<Rightarrow> nat \<Rightarrow> string \<Rightarrow> state" where
  "sse_accept st conn sessionId =
     factory_start (Some sessionId)
       (st\<lparr>transports := AList.update sessionId conn (transports st)\<rparr>)"

definition sse_bound ::
  "(string option \<Rightarrow> bool) \<Rightarrow> state \<Rightarrow> nat \<Rightarrow> string \<Rightarrow> sse_response \<times> state" where
  "sse_bound provision st conn sessionId =
     (case create_finish provision (Some sessionId) st of
        (Inr server, st1) \<Rightarrow>
          (Connected server,
           st1\<lparr>close_handlers := close_handlers st1 @ [(conn, sessionId, server)]\<rparr>)
      | (Inl e, st1) \<Rightarrow> (CreateFailed, st1))"

definition sse_get ::
  "(string option \<Rightarrow> bool) \<Rightarrow> state \<Rightarrow> nat \<Rightarrow> string \<Rightarrow> sse_response \<times> state" where
  "sse_get provision st conn sessionId =
     sse_bound provision (sse_accept st conn sessionId) conn sessionId"

definition sse_other :: "state \<Rightarrow> sse_response \<times> state" where
  "sse_other st = (Status 405 ''Method not allowed'', st)"

text \<open>
  The \<open>close\<close> event of a connection runs the listener registered on it, if the \<open>GET\<close>
  got that far: \<open>sessions.delete\<close>, then \<open>serverList.close(server)\<close> whose rejection is
  caught and logged.
\<close>

definition sse_close :: "(server \<Rightarrow> settle) \<Rightarrow> state \<Rightarrow> nat \<Rightarrow> state" where
  "sse_close release st conn =
     (case map_of (close_handlers st) conn of
        None \<Rightarrow> st
      | Some (sessionId, server) \<Rightarrow>
          snd (serverList_close release
                 (st\<lparr>transports := AList.delete sessionId (transports st),
                     close_handlers := AList.delete conn (close_handlers st)\<rparr>)
                 server))"

section \<open>Shutdown\<close>

definition force_exit_after :: nat where
  "force_exit_after = 15000"

text \<open>
  \<open>handleExit\<close> of \<open>setupExitWatchdog\<close>: arm the timer that exits, await \<open>closeAll()\<close>,
  exit. The result is the time by which \<open>process.exit\<close> has been called: when
  \<open>closeAll()\<close> resolves, or else when the timer fires.
\<close>

definition handleExit :: "(server \<Rightarrow> settle) \<Rightarrow> state \<Rightarrow> nat \<times> state" where
  "handleExit release st =
     (let st1 = st\<lparr>exit_timers := exit_timers st @ [now st + force_exit_after]\<rparr> in
      case closeAll release st1 of
        (Resolves d, st2) \<Rightarrow> (min (now st + d) (now st + force_exit_after), st2)
      | (r, st2) \<Rightarrow> (now st + force_exit_after, st2))"

text \<open>
  The loop of \<open>gracefulShutdown\<close> over \<open>sessions.entries()\<close>: close the server through the
  registry, collect the promise, clear and forget the session's timer; then
  \<open>sessions.clear()\<close> and \<open>Promise.all\<close> over the collected promises.
\<close>

definition close_session ::
  "(server \<Rightarrow> settle) \<Rightarrow> string \<times> server \<Rightarrow> settle list \<times> state \<Rightarrow> settle list \<times> state" where
  "close_session release entry acc =
     (case (entry, acc) of
        ((sessionId, server), (closingPromises, st)) \<Rightarrow>
          (case serverList_close release st server of
             (r, st1) \<Rightarrow>
               (closingPromises @ [r],
                case map_of (sessionTimers st1) sessionId of
                  Some h \<Rightarrow>
                    st1\<lparr>timers := clearTimeout h (timers st1),
                        sessionTimers := AList.delete sessionId (sessionTimers st1)\<rparr>
                | None \<Rightarrow> st1)))"

definition close_sessions :: "(server \<Rightarrow> settle) \<Rightarrow> state \<Rightarrow> settle \<times> state" where
  "close_sessions release st =
     (case fold (close_session release) (sessions st) ([], st) of
        (closingPromises, st1) \<Rightarrow> (promise_all closingPromises, st1\<lparr>sessions := []\<rparr>))"

text \<open>
  \<open>gracefulShutdown\<close> of \<open>startHttpServer\<close>: \<open>httpServer.close(callback)\<close> and the timer
  that exits. \<open>httpClosed\<close> is the time after which the HTTP server has closed and calls
  back (\<open>None\<close>: it never does); the callback closes the sessions and exits in its
  \<open>finally\<close>, once \<open>Promise.all\<close> has settled either way.
\<close>

definition gracefulShutdown ::
  "(server \<Rightarrow> settle) \<Rightarrow> nat option \<Rightarrow> state \<Rightarrow> nat \<times> state" where
  "gracefulShutdown release httpClosed st =
     (let st1 = st\<lparr>exit_timers := exit_timers st @ [now st + force_exit_after]\<rparr> in
      case httpClosed of
        None \<Rightarrow> (now st + force_exit_after, st1)
      | Some d \<Rightarrow>
          if d < force_exit_after
          then
            (case close_sessions release st1 of
               (Resolves t, st2) \<Rightarrow> (min (now st + d + t) (now st + force_exit_after), st2)
             | (Rejects t, st2) \<Rightarrow> (min (now st + d + t) (now st + force_exit_after), st2)
             | (Hangs, st2) \<Rightarrow> (now st + force_exit_after, st2))
          else (now st + force_exit_after, st1))"

text \<open>
  \<open>setupExitWatchdog\<close> registers \<open>handleExit\<close> for the close of standard input and for
  both signals, in every mode; \<open>startHttpServer\<close> then adds \<open>gracefulShutdown\<close> for the
  two signals. Listeners run in the order of their registration. The callback of
  \<open>httpServer.close\<close> runs only if the HTTP server has closed before \<open>handleExit\<close> has
  ended the process.
\<close>

datatype signal = SIGINT | SIGTERM | StdinClose

datatype mode = Stdio | Sse | Http

definition on_signal ::
  "mode \<Rightarrow> (server \<Rightarrow> settle) \<Rightarrow> nat option \<Rightarrow> signal \<Rightarrow> state \<Rightarrow> nat \<times> state" where
  "on_signal m release httpClosed sig st =
     (case handleExit release st of
        (t1, st1) \<Rightarrow>
          if m = Http \<and> sig \<noteq> StdinClose
          then (case gracefulShutdown release
                       (case httpClosed of
                          Some d \<Rightarrow> if now st + d < t1 then Some d else None
                        | None \<Rightarrow> None)
                       st1 of
                  (t2, st2) \<Rightarrow> (min t1 t2, st2))
          else (t1, st1))"

section \<open>The resource factory's profile directory\<close>

text \<open>
  \<open>path.join\<close> and \<open>fs.promises.mkdir\<close> are the platform's: parameters \<open>join\<close> and
  \<open>mkdir\<close> (whether the directory could be made).
\<close>

datatype browserName = Chromium | Firefox | Webkit

fun browser_text :: "browserName \<Rightarrow> string" where
  "browser_text Chromium = ''chromium''"
| "browser_text Firefox = ''firefox''"
| "browser_text Webkit = ''webkit''"

datatype platform = Linux | Darwin | Win32 | Other string

record os_env =
  process_platform :: platform
  XDG_CACHE_HOME :: "string option"
  LOCALAPPDATA :: "string option"
  homedir :: string

datatype dir_error = UnsupportedPlatform string | MkdirFailed

definition env_or :: "string option \<Rightarrow> string \<Rightarrow> string" where
  "env_or v d = (case v of Some x \<Rightarrow> if x \<noteq> [] then x else d | None \<Rightarrow> d)"

definition cacheDirectory :: "(string list \<Rightarrow> string) \<Rightarrow> os_env \<Rightarrow> dir_error + string" where
  "cacheDirectory join env =
     (case process_platform env of
        Linux \<Rightarrow> Inr (env_or (XDG_CACHE_HOME env) (join [homedir env, ''.cache'']))
      | Darwin \<Rightarrow> Inr (join [homedir env, ''Library'', ''Caches''])
      | Win32 \<Rightarrow> Inr (env_or (LOCALAPPDATA env) (join [homedir env, ''AppData'', ''Local'']))
      | Other p \<Rightarrow> Inl (UnsupportedPlatform p))"

definition profileSuffix :: "string option \<Rightarrow> string" where
  "profileSuffix sessionId =
     (case sessionId of
        Some s \<Rightarrow> if s \<noteq> [] \<and> s \<noteq> ''default'' then ''-'' @ s else []
      | None \<Rightarrow> [])"

definition profileDirName :: "browserName \<Rightarrow> string option \<Rightarrow> string" where
  "profileDirName b sessionId = ''mcp-'' @ browser_text b @ ''-profile'' @ profileSuffix sessionId"

definition createUserDataDir ::
  "(string list \<Rightarrow> string) \<Rightarrow> (string \<Rightarrow> bool) \<Rightarrow> os_env \<Rightarrow> browserName \<Rightarrow> string option \<Rightarrow>
     dir_error + string" where
  "createUserDataDir join mkdir env b sessionId =
     (case cacheDirectory join env of
        Inl e \<Rightarrow> Inl e
      | Inr c \<Rightarrow>
          (let result = join [c, ''ms-playwright'', profileDirName b sessionId] in
           if mkdir result then Inr result else Inl MkdirFailed))"

text \<open>
  \<open>options.userDataDir ?? await createUserDataDir(browserName, sessionId)\<close> of
  \<open>serverFactory\<close>.
\<close>

definition effectiveUserDataDir ::
  "(string list \<Rightarrow> string) \<Rightarrow> (string \<Rightarrow> bool) \<Rightarrow> os_env \<Rightarrow> string option \<Rightarrow> browserName \<Rightarrow>
     string option \<Rightarrow> dir_error + string" where
  "effectiveUserDataDir join mkdir env userDataDir b sessionId =
     (case userDataDir of
        Some d \<Rightarrow> Inr d
      | None \<Rightarrow> createUserDataDir join mkdir env b sessionId)"

text \<open>
  \<open>serverFactory\<close>: the directory, then \<open>createServer\<close> with it. \<open>createServer\<close> is not
  among the sources: a parameter, of which the model has only that it is given the
  directory.
\<close>

definition serverFactory ::
  "(string list \<Rightarrow> string) \<Rightarrow> (string \<Rightarrow> bool) \<Rightarrow> os_env \<Rightarrow> string option \<Rightarrow> browserName \<Rightarrow>
     (string \<Rightarrow> 'r) \<Rightarrow> string option \<Rightarrow> dir_error + 'r" where
  "serverFactory join mkdir env userDataDir b createServer sessionId =
     (case effectiveUserDataDir join mkdir env userDataDir b sessionId of
        Inl e \<Rightarrow> Inl e
      | Inr effectiveDir \<Rightarrow> Inr (createServer effectiveDir))"

text \<open>The Single-Stream adapter: \<open>serverList.create()\<close> with no session id.\<close>

definition start_stdio :: "(string option \<Rightarrow> bool) \<Rightarrow> state \<Rightarrow> (error + server) \<times> state" where
  "start_stdio provision st = serverList_create provision None st"

section \<open>Example data\<close>

definition navigate_tool :: tool where
  "navigate_tool =
     \<lparr>schema = \<lparr>name = ''browser_navigate'', description = Some ''Navigate to a URL'',
                 inputSchema = None\<rparr>,
      handle = (\<lambda>args. Returns \<lparr>content = [(''text'', ''Navigated'')], isError = False\<rparr>)\<rparr>"

section \<open>Timers of a session key\<close>

text \<open>
  The timers the runtime holds whose callback is for a given session key (handle and
  deadline), and the condition that each of them is the timer \<open>sessionTimers\<close> has for
  the key, the one the next request will clear.
\<close>

definition timers_of :: "state \<Rightarrow> string \<Rightarrow> (nat \<times> nat) list" where
  "timers_of st sessionId =
     map (\<lambda>(h, k, deadline). (h, deadline))
       (filter (\<lambda>(h, k, deadline). k = sessionId) (timers st))"

definition registered :: "state \<Rightarrow> string \<Rightarrow> bool" where
  "registered st sessionId =
     (\<forall>(h, k, deadline) \<in> set (timers st).
        k = sessionId \<longrightarrow> map_of (sessionTimers st) sessionId = Some h)"

text \<open>The state after the first request of a process, one with no \<open>Session-Id\<close> header.\<close>

definition first_request :: state where
  "first_request = snd (middleware (\<lambda>k. True) init None)"

text \<open>
  The timer callback split at its \<open>await\<close>, for a request that runs while the close is
  pending: \<open>on_timeout_begin\<close> is the callback up to the \<open>await\<close> (for a key that is
  bound), \<open>on_timeout_end\<close> the two deletions after it.
\<close>

definition on_timeout_begin :: "(server \<Rightarrow> settle) \<Rightarrow> state \<Rightarrow> string \<Rightarrow> state" where
  "on_timeout_begin release st sessionId =
     (case map_of (sessions st) sessionId of
        Some serverToClose \<Rightarrow> snd (serverList_close release st serverToClose)
      | None \<Rightarrow> st\<lparr>sessionTimers := AList.delete sessionId (sessionTimers st)\<rparr>)"

definition on_timeout_end :: "state \<Rightarrow> string \<Rightarrow> state" where
  "on_timeout_end st sessionId =
     st\<lparr>sessions := AList.delete sessionId (sessions st),
        sessionTimers := AList.delete sessionId (sessionTimers st)\<rparr>"

text \<open>
  A run in which a request arrives while the callback of the session's timer is
  awaiting the close: the first request at time 0, the timer fired at 1800000 and its
  callback begun, a request, the callback ended, a request at 2000000 and one at
  3500000.
\<close>

definition interleaved_callback :: state where
  "interleaved_callback =
     (let ok = (\<lambda>k. True);
          release = (\<lambda>s. Resolves 0);
          s1 = first_request\<lparr>now := 1800000\<rparr>;
          s2 = on_timeout_begin release (s1\<lparr>timers := clearTimeout 0 (timers s1)\<rparr>) ''default'';
          s3 = snd (middleware ok s2 None);
          s4 = on_timeout_end s3 ''default'';
          s5 = snd (middleware ok (s4\<lparr>now := 2000000\<rparr>) None)
      in snd (middleware ok (s5\<lparr>now := 3500000\<rparr>) None))"

text \<open>A \<open>path.join\<close> for the examples: the segments with a slash between them.\<close>

fun slash_join :: "string list \<Rightarrow> string" where
  "slash_join [] = []"
| "slash_join [x] = x"
| "slash_join (x # y # ys) = x @ ''/'' @ slash_join (y # ys)"

definition linux_env :: os_env where
  "linux_env = \<lparr>process_platform = Linux, XDG_CACHE_HOME = Some ''/cache'',
                 LOCALAPPDATA = None, homedir = ''/home/u''\<rparr>"


section \<open>Properties\<close>

subsection \<open>Promise.all\<close>

lemma fold_min_le: "fold min ts (t::nat) \<le> t"
proof (induction ts arbitrary: t)
  case Nil
  show ?case by simp
next
  case (Cons a ts)
  have "fold min ts (min a t) \<le> min a t" by (rule Cons.IH)
  then show ?case by simp
qed

lemma fold_min_lower: "x \<in> set ts \<Longrightarrow> fold min ts (t::nat) \<le> x"
proof (induction ts arbitrary: t)
  case Nil
  then show ?case by simp
next
  case (Cons a ts)
  show ?case
  proof (cases "x = a")
    case True
    have "fold min ts (min a t) \<le> min a t" by (rule fold_min_le)
    with True show ?thesis by simp
  next
    case False
    with Cons show ?thesis by simp
  qed
qed

lemma fold_min_mem: "fold min ts (t::nat) \<in> set (t # ts)"
proof (induction ts arbitrary: t)
  case Nil
  then show ?case by simp
next
  case (Cons a ts)
  have "fold min ts (min a t) \<in> set (min a t # ts)" by (rule Cons.IH)
  moreover have "min a t = a \<or> min a t = t" by (simp add: min_def)
  ultimately show ?case by auto
qed

lemma fold_max_upper: "x \<in> set xs \<Longrightarrow> x \<le> fold max xs (m::nat)"
proof (induction xs arbitrary: m)
  case Nil
  then show ?case by simp
next
  case (Cons a xs)
  have mono: "\<And>b. b \<le> fold max xs (b::nat)"
    subgoal for b
    proof (induction xs arbitrary: b)
      case Nil
      show ?case by simp
    next
      case (Cons c cs)
      have "max c b \<le> fold max cs (max c b)" by (rule Cons.IH)
      then show ?case by simp
    qed
    done
  show ?case
  proof (cases "x = a")
    case True
    have "max a m \<le> fold max xs (max a m)" by (rule mono)
    with True show ?thesis by simp
  next
    case False
    with Cons show ?thesis by simp
  qed
qed

lemma rejections_mem: "t \<in> set (rejections ps) \<longleftrightarrow> Rejects t \<in> set ps"
  by (induction ps rule: rejections.induct) auto

lemma resolutions_mem: "t \<in> set (resolutions ps) \<longleftrightarrow> Resolves t \<in> set ps"
  by (induction ps rule: resolutions.induct) auto

lemma promise_all_Resolves:
  assumes "promise_all ps = Resolves t" and "p \<in> set ps"
  shows "\<exists>d. p = Resolves d \<and> d \<le> t"
proof -
  from assms(1) have nil: "rejections ps = []" and nh: "Hangs \<notin> set ps"
    and t: "t = fold max (resolutions ps) 0"
    by (auto simp: promise_all_def split: list.splits if_splits)
  from nil have "\<And>d. Rejects d \<notin> set ps"
    using rejections_mem [of _ ps] by simp
  with nh assms(2) obtain d where d: "p = Resolves d"
    by (cases p) auto
  with assms(2) have "d \<in> set (resolutions ps)" by (simp add: resolutions_mem)
  then have "d \<le> t" unfolding t by (rule fold_max_upper)
  with d show ?thesis by simp
qed

lemma promise_all_all_resolve:
  assumes "\<forall>p\<in>set ps. resolves p"
  shows "resolves (promise_all ps)"
proof -
  have "rejections ps = []"
  proof (cases "rejections ps")
    case Nil
    then show ?thesis .
  next
    case (Cons t ts)
    then have "Rejects t \<in> set ps" using rejections_mem [of t ps] by simp
    with assms have "resolves (Rejects t)" by blast
    then show ?thesis by simp
  qed
  moreover have "Hangs \<notin> set ps"
  proof
    assume "Hangs \<in> set ps"
    with assms have "resolves Hangs" by blast
    then show False by simp
  qed
  ultimately show ?thesis by (simp add: promise_all_def)
qed

lemma promise_all_rejects:
  assumes "Rejects d0 \<in> set ps"
  shows "\<exists>d. promise_all ps = Rejects d \<and> Rejects d \<in> set ps \<and>
           (\<forall>d'. Rejects d' \<in> set ps \<longrightarrow> d \<le> d')"
proof -
  from assms have "d0 \<in> set (rejections ps)" by (simp add: rejections_mem)
  then obtain t ts where ts: "rejections ps = t # ts" by (cases "rejections ps") auto
  let ?d = "fold min ts t"
  have pa: "promise_all ps = Rejects ?d" by (simp add: promise_all_def ts)
  have "?d \<in> set (rejections ps)" unfolding ts by (rule fold_min_mem)
  then have mem: "Rejects ?d \<in> set ps" by (simp add: rejections_mem)
  have low: "\<forall>d'. Rejects d' \<in> set ps \<longrightarrow> ?d \<le> d'"
  proof (intro allI impI)
    fix d' assume "Rejects d' \<in> set ps"
    then have "d' \<in> set (t # ts)" using rejections_mem [of d' ps] ts by simp
    then show "?d \<le> d'" using fold_min_le [of ts t] fold_min_lower [of d' ts t] by auto
  qed
  from pa mem low show ?thesis by blast
qed


subsection \<open>closeAll\<close>

text \<open>
  C2, as the code has it. \<open>closeAll()\<close> calls \<open>close()\<close> on every server of the registry,
  in the registry's order, and removes none of them from the registry. When it returns
  normally every release has completed by then; when every release succeeds it returns
  normally; when some release fails it fails at the moment of the earliest failure,
  whatever the other releases are doing.
\<close>

theorem closeAll_starts_every_release:
  "closes (snd (closeAll release st)) = closes st @ servers st \<and>
   servers (snd (closeAll release st)) = servers st \<and>
   sessions (snd (closeAll release st)) = sessions st \<and>
   (\<forall>t. fst (closeAll release st) = Resolves t \<longrightarrow>
      (\<forall>s\<in>set (servers st). \<exists>d. release s = Resolves d \<and> d \<le> t)) \<and>
   ((\<forall>s\<in>set (servers st). resolves (release s)) \<longrightarrow> resolves (fst (closeAll release st))) \<and>
   (\<forall>s0\<in>set (servers st). \<forall>d0. release s0 = Rejects d0 \<longrightarrow>
      (\<exists>d. fst (closeAll release st) = Rejects d \<and>
           (\<exists>s\<in>set (servers st). release s = Rejects d) \<and>
           (\<forall>s\<in>set (servers st). \<forall>d'. release s = Rejects d' \<longrightarrow> d \<le> d')))"
proof (intro conjI)
  show "closes (snd (closeAll release st)) = closes st @ servers st"
    by (simp add: closeAll_def)
  show "servers (snd (closeAll release st)) = servers st"
    by (simp add: closeAll_def)
  show "sessions (snd (closeAll release st)) = sessions st"
    by (simp add: closeAll_def)
  show "\<forall>t. fst (closeAll release st) = Resolves t \<longrightarrow>
      (\<forall>s\<in>set (servers st). \<exists>d. release s = Resolves d \<and> d \<le> t)"
  proof (intro allI impI ballI)
    fix t s
    assume "fst (closeAll release st) = Resolves t" and "s \<in> set (servers st)"
    then have "promise_all (map release (servers st)) = Resolves t"
      and "release s \<in> set (map release (servers st))"
      by (simp_all add: closeAll_def)
    then show "\<exists>d. release s = Resolves d \<and> d \<le> t"
      by (rule promise_all_Resolves)
  qed
  show "(\<forall>s\<in>set (servers st). resolves (release s)) \<longrightarrow> resolves (fst (closeAll release st))"
  proof
    assume "\<forall>s\<in>set (servers st). resolves (release s)"
    then have "\<forall>p\<in>set (map release (servers st)). resolves p" by simp
    then have "resolves (promise_all (map release (servers st)))"
      by (rule promise_all_all_resolve)
    then show "resolves (fst (closeAll release st))" by (simp add: closeAll_def)
  qed
  show "\<forall>s0\<in>set (servers st). \<forall>d0. release s0 = Rejects d0 \<longrightarrow>
      (\<exists>d. fst (closeAll release st) = Rejects d \<and>
           (\<exists>s\<in>set (servers st). release s = Rejects d) \<and>
           (\<forall>s\<in>set (servers st). \<forall>d'. release s = Rejects d' \<longrightarrow> d \<le> d'))"
  proof (intro ballI allI impI)
    fix s0 d0
    assume "s0 \<in> set (servers st)" and "release s0 = Rejects d0"
    then have "Rejects d0 \<in> set (map release (servers st))" by force
    then obtain d where d: "promise_all (map release (servers st)) = Rejects d"
      "Rejects d \<in> set (map release (servers st))"
      "\<forall>d'. Rejects d' \<in> set (map release (servers st)) \<longrightarrow> d \<le> d'"
      using promise_all_rejects by blast
    from d(2) have "\<exists>s\<in>set (servers st). release s = Rejects d" by auto
    moreover from d(3) have "\<forall>s\<in>set (servers st). \<forall>d'. release s = Rejects d' \<longrightarrow> d \<le> d'"
      by force
    ultimately show "\<exists>d. fst (closeAll release st) = Rejects d \<and>
           (\<exists>s\<in>set (servers st). release s = Rejects d) \<and>
           (\<forall>s\<in>set (servers st). \<forall>d'. release s = Rejects d' \<longrightarrow> d \<le> d')"
      using d(1) by (simp add: closeAll_def)
  qed
qed

theorem closeAll_starts_every_release_witness:
  "closeAll (\<lambda>s. if s = 0 then Resolves 5 else Rejects 7) (init\<lparr>servers := [0, 1]\<rparr>)
     = (Rejects 7, init\<lparr>servers := [0, 1], closes := [0, 1]\<rparr>) \<and>
   fst (closeAll (\<lambda>s. Resolves (5 + s)) (init\<lparr>servers := [0, 1]\<rparr>)) = Resolves 6"
proof -
  let ?r = "\<lambda>s::nat. if s = 0 then Resolves 5 else Rejects 7"
  let ?st = "init\<lparr>servers := [0, 1]\<rparr>"
  have a: "1 \<in> set (servers ?st)" "?r 1 = Rejects 7" by (simp_all add: init_def)
  from closeAll_starts_every_release [of ?r ?st] a
  obtain d where d: "fst (closeAll ?r ?st) = Rejects d"
    "\<exists>s\<in>set (servers ?st). ?r s = Rejects d"
    and c: "closes (snd (closeAll ?r ?st)) = closes ?st @ servers ?st"
    by blast
  from d(2) have "d = 7" by (auto simp: init_def split: if_splits)
  with d(1) have 1: "fst (closeAll ?r ?st) = Rejects 7" by simp
  have 2: "snd (closeAll ?r ?st) = init\<lparr>servers := [0, 1], closes := [0, 1]\<rparr>"
    by (simp add: closeAll_def init_def)
  let ?q = "\<lambda>s::nat. Resolves (5 + s)"
  have "\<forall>s\<in>set (servers ?st). resolves (?q s)" by simp
  with closeAll_starts_every_release [of ?q ?st]
  have "resolves (fst (closeAll ?q ?st))" by blast
  moreover have "fst (closeAll ?q ?st) = Resolves 6"
    by (simp add: closeAll_def promise_all_def init_def)
  ultimately show ?thesis using 1 2 by (simp add: prod_eq_iff)
qed

text \<open>
  C2 as stated fails: with two servers registered, the first release failing after 1 ms
  and the second succeeding after 100 ms, \<open>closeAll()\<close> fails after 1 ms, before the
  second release has completed, and the registry still holds both servers.
\<close>

theorem closeAll_counterexample:
  "closeAll (\<lambda>s. if s = 0 then Rejects 1 else Resolves 100) (init\<lparr>servers := [0, 1]\<rparr>)
     = (Rejects 1, init\<lparr>servers := [0, 1], closes := [0, 1]\<rparr>) \<and>
   servers (snd (closeAll (\<lambda>s. if s = 0 then Rejects 1 else Resolves 100)
                   (init\<lparr>servers := [0, 1]\<rparr>))) \<noteq> []"
  by (simp add: closeAll_def promise_all_def init_def)

subsection \<open>close\<close>

text \<open>
  C6, as the code has it. \<open>close(server)\<close> removes the server from the registry and calls
  the server's own \<open>close()\<close>, whose outcome is the outcome of the call. A second
  \<open>close(server)\<close> leaves the registry as the first left it, calls the server's
  \<open>close()\<close> once more, and again ends as that call ends.
\<close>

theorem close_removes_entry_and_releases_again:
  assumes "distinct (servers st)"
  shows "fst (serverList_close release st srv) = release srv \<and>
         srv \<notin> set (servers (snd (serverList_close release st srv))) \<and>
         set (servers (snd (serverList_close release st srv))) = set (servers st) - {srv} \<and>
         closes (snd (serverList_close release st srv)) = closes st @ [srv] \<and>
         fst (serverList_close release (snd (serverList_close release st srv)) srv)
           = release srv \<and>
         servers (snd (serverList_close release (snd (serverList_close release st srv)) srv))
           = servers (snd (serverList_close release st srv)) \<and>
         closes (snd (serverList_close release (snd (serverList_close release st srv)) srv))
           = closes st @ [srv, srv]"
  using assms by (simp add: serverList_close_def remove1_idem)

theorem close_removes_entry_and_releases_again_witness:
  "distinct (servers (init\<lparr>servers := [0, 1]\<rparr>)) \<and>
   servers (snd (serverList_close (\<lambda>s. Resolves 0) (init\<lparr>servers := [0, 1]\<rparr>) 0)) = [1] \<and>
   closes (snd (serverList_close (\<lambda>s. Resolves 0)
                  (snd (serverList_close (\<lambda>s. Resolves 0) (init\<lparr>servers := [0, 1]\<rparr>) 0)) 0))
     = [0, 0]"
proof -
  have d: "distinct (servers (init\<lparr>servers := [0, 1]\<rparr>))" by (simp add: init_def)
  from close_removes_entry_and_releases_again [OF d, of "\<lambda>s. Resolves 0" 0]
  have "closes (snd (serverList_close (\<lambda>s. Resolves 0)
                  (snd (serverList_close (\<lambda>s. Resolves 0) (init\<lparr>servers := [0, 1]\<rparr>) 0)) 0))
     = closes (init\<lparr>servers := [0, 1]\<rparr>) @ [0, 0]"
    by blast
  then show ?thesis using d by (simp add: serverList_close_def init_def)
qed

text \<open>
  C6 as stated fails: closing a server that is not in the registry still calls the
  server's \<open>close()\<close>, and when that call fails so does the closing; and a second close of
  a server whose releases succeed is not without effect, the release runs twice.
\<close>

theorem close_idempotent_counterexample:
  "serverList_close (\<lambda>s. Rejects 0) init 0 = (Rejects 0, init\<lparr>closes := [0]\<rparr>) \<and>
   snd (serverList_close (\<lambda>s. Resolves 0)
          (snd (serverList_close (\<lambda>s. Resolves 0) (init\<lparr>servers := [0]\<rparr>) 0)) 0)
     = init\<lparr>closes := [0, 0]\<rparr> \<and>
   snd (serverList_close (\<lambda>s. Resolves 0) (init\<lparr>servers := [0]\<rparr>) 0) = init\<lparr>closes := [0]\<rparr>"
  by (simp add: serverList_close_def init_def)

subsection \<open>Session keys and getOrCreate\<close>

lemma getOrCreate_bound:
  "map_of (sessions st) k = Some srv \<Longrightarrow> getOrCreate provision st k = (Inr srv, st)"
  by (simp add: getOrCreate_def)

lemma getOrCreate_created:
  "map_of (sessions st) k = None \<Longrightarrow> provision (Some k) \<Longrightarrow>
   getOrCreate provision st k
     = (Inr (next_server st),
        st\<lparr>factory_calls := factory_calls st @ [Some k],
           servers := servers st @ [next_server st],
           next_server := Suc (next_server st),
           sessions := AList.update k (next_server st) (sessions st)\<rparr>)"
  by (simp add: getOrCreate_def serverList_create_def create_finish_def factory_start_def)

lemma getOrCreate_failed:
  "map_of (sessions st) k = None \<Longrightarrow> \<not> provision (Some k) \<Longrightarrow>
   getOrCreate provision st k
     = (Inl ProvisionError, st\<lparr>factory_calls := factory_calls st @ [Some k]\<rparr>)"
  by (simp add: getOrCreate_def serverList_create_def create_finish_def factory_start_def)

text \<open>
  C4, as the code has it. The session key of a request is the value of its \<open>Session-Id\<close>
  header, and \<open>default\<close> when the header is absent or empty. For a key that is bound,
  \<open>getOrCreate\<close> returns the bound server and changes nothing, the factory is not
  called. For a key that is not bound it calls the factory with the key; when the
  factory succeeds the new server is registered, bound to the key (and to that key
  only) and returned; when the factory fails nothing is bound and the error is the
  result.
\<close>

theorem session_key_and_getOrCreate:
  "sessionId_of None = ''default'' \<and>
   sessionId_of (Some []) = ''default'' \<and>
   (v \<noteq> [] \<longrightarrow> sessionId_of (Some v) = v) \<and>
   (map_of (sessions st) k = Some srv \<longrightarrow> getOrCreate provision st k = (Inr srv, st)) \<and>
   (map_of (sessions st) k = None \<and> provision (Some k) \<longrightarrow>
      fst (getOrCreate provision st k) = Inr (next_server st) \<and>
      map_of (sessions (snd (getOrCreate provision st k)))
        = (map_of (sessions st))(k \<mapsto> next_server st) \<and>
      servers (snd (getOrCreate provision st k)) = servers st @ [next_server st] \<and>
      factory_calls (snd (getOrCreate provision st k)) = factory_calls st @ [Some k]) \<and>
   (map_of (sessions st) k = None \<and> \<not> provision (Some k) \<longrightarrow>
      fst (getOrCreate provision st k) = Inl ProvisionError \<and>
      sessions (snd (getOrCreate provision st k)) = sessions st \<and>
      servers (snd (getOrCreate provision st k)) = servers st \<and>
      factory_calls (snd (getOrCreate provision st k)) = factory_calls st @ [Some k]) \<and>
   fst (middleware provision st header)
     = map_sum id (\<lambda>server. (server, sessionId_of header))
         (fst (getOrCreate provision st (sessionId_of header)))"
proof (intro conjI impI)
  show "sessionId_of None = ''default''" by (simp add: sessionId_of_def ctx_get_def)
  show "sessionId_of (Some []) = ''default''" by (simp add: sessionId_of_def ctx_get_def)
  show "sessionId_of (Some v) = v" if "v \<noteq> []"
    using that by (simp add: sessionId_of_def ctx_get_def)
  show "getOrCreate provision st k = (Inr srv, st)" if "map_of (sessions st) k = Some srv"
    using that by (rule getOrCreate_bound)
next
  assume a: "map_of (sessions st) k = None \<and> provision (Some k)"
  then have g: "getOrCreate provision st k
     = (Inr (next_server st),
        st\<lparr>factory_calls := factory_calls st @ [Some k],
           servers := servers st @ [next_server st],
           next_server := Suc (next_server st),
           sessions := AList.update k (next_server st) (sessions st)\<rparr>)"
    by (simp add: getOrCreate_created)
  show "fst (getOrCreate provision st k) = Inr (next_server st)" by (simp add: g)
  show "map_of (sessions (snd (getOrCreate provision st k)))
        = (map_of (sessions st))(k \<mapsto> next_server st)"
    by (simp add: g update_conv')
  show "servers (snd (getOrCreate provision st k)) = servers st @ [next_server st]"
    by (simp add: g)
  show "factory_calls (snd (getOrCreate provision st k)) = factory_calls st @ [Some k]"
    by (simp add: g)
next
  assume a: "map_of (sessions st) k = None \<and> \<not> provision (Some k)"
  then have g: "getOrCreate provision st k
     = (Inl ProvisionError, st\<lparr>factory_calls := factory_calls st @ [Some k]\<rparr>)"
    by (simp add: getOrCreate_failed)
  show "fst (getOrCreate provision st k) = Inl ProvisionError" by (simp add: g)
  show "sessions (snd (getOrCreate provision st k)) = sessions st" by (simp add: g)
  show "servers (snd (getOrCreate provision st k)) = servers st" by (simp add: g)
  show "factory_calls (snd (getOrCreate provision st k)) = factory_calls st @ [Some k]"
    by (simp add: g)
next
  show "fst (middleware provision st header)
     = map_sum id (\<lambda>server. (server, sessionId_of header))
         (fst (getOrCreate provision st (sessionId_of header)))"
    by (cases "getOrCreate provision st (sessionId_of header)")
      (auto simp: middleware_def Let_def split: sum.splits)
qed

theorem session_key_and_getOrCreate_witness:
  "sessionId_of (Some ''abc'') = ''abc'' \<and>
   getOrCreate (\<lambda>k. True) init ''abc''
     = (Inr 0, init\<lparr>factory_calls := [Some ''abc''], servers := [0], next_server := 1,
                   sessions := [(''abc'', 0)]\<rparr>) \<and>
   getOrCreate (\<lambda>k. True) (snd (getOrCreate (\<lambda>k. True) init ''abc'')) ''abc''
     = (Inr 0, snd (getOrCreate (\<lambda>k. True) init ''abc'')) \<and>
   getOrCreate (\<lambda>k. False) init ''abc''
     = (Inl ProvisionError, init\<lparr>factory_calls := [Some ''abc'']\<rparr>)"
proof -
  let ?ok = "\<lambda>k::string option. True"
  let ?no = "\<lambda>k::string option. False"
  have 1: "sessionId_of (Some ''abc'') = ''abc''"
    using session_key_and_getOrCreate [of "''abc''"] by simp
  have fresh: "map_of (sessions init) ''abc'' = None" by (simp add: init_def)
  have 2: "fst (getOrCreate ?ok init ''abc'') = Inr 0"
    using session_key_and_getOrCreate [of _ init "''abc''" _ ?ok] fresh
    by (simp add: init_def)
  have s2: "snd (getOrCreate ?ok init ''abc'')
     = init\<lparr>factory_calls := [Some ''abc''], servers := [0], next_server := 1,
           sessions := [(''abc'', 0)]\<rparr>"
    by (simp add: getOrCreate_def serverList_create_def create_finish_def factory_start_def
        init_def)
  have bound: "map_of (sessions (snd (getOrCreate ?ok init ''abc''))) ''abc'' = Some 0"
    by (simp add: s2)
  have 3: "getOrCreate ?ok (snd (getOrCreate ?ok init ''abc'')) ''abc''
     = (Inr 0, snd (getOrCreate ?ok init ''abc''))"
    using session_key_and_getOrCreate [of _ "snd (getOrCreate ?ok init ''abc'')" "''abc''" 0 ?ok]
      bound by blast
  have 4: "fst (getOrCreate ?no init ''abc'') = Inl ProvisionError"
    using session_key_and_getOrCreate [of _ init "''abc''" _ ?no] fresh by simp
  have s4: "snd (getOrCreate ?no init ''abc'') = init\<lparr>factory_calls := [Some ''abc'']\<rparr>"
    by (simp add: getOrCreate_def serverList_create_def create_finish_def factory_start_def
        init_def)
  from 1 2 s2 3 4 s4 show ?thesis by (simp add: prod_eq_iff)
qed

text \<open>
  C4 as stated fails for a \<open>Session-Id\<close> header that is present and empty: the key is
  \<open>default\<close>, not the header's value.
\<close>

theorem session_key_counterexample:
  "sessionId_of (Some []) = ''default'' \<and> sessionId_of (Some []) \<noteq> []"
  by (simp add: sessionId_of_def ctx_get_def)

subsection \<open>One instance per key\<close>

lemma sessions_reset_timer: "sessions (reset_timer st k) = sessions st"
  by (simp add: reset_timer_def Let_def split: option.splits)









text \<open>
  A request that is not interleaved with another is the middleware in one piece: begun
  and, when it was suspended at the factory, resumed at once.
\<close>

lemma middleware_begin_resume:
  assumes "pending st = []"
  shows "snd (middleware provision st header)
           = (case map_of (sessions st) (sessionId_of header) of
                Some server \<Rightarrow> mw_begin st header
              | None \<Rightarrow> mw_resume provision (mw_begin st header) 0)"
proof -
  from assms have e: "\<And>f. st\<lparr>factory_calls := f, pending := []\<rparr> = st\<lparr>factory_calls := f\<rparr>"
    by (cases st) simp
  show ?thesis
    using assms
    by (simp add: middleware_def getOrCreate_def mw_begin_def mw_resume_def
        serverList_create_def create_finish_def factory_start_def Let_def e
        split: option.splits)
qed




subsection \<open>The Per-Connection adapter\<close>

lemma sse_get_ok:
  "provision (Some sid) \<Longrightarrow>
   sse_get provision st conn sid
     = (Connected (next_server st),
        st\<lparr>transports := AList.update sid conn (transports st),
           factory_calls := factory_calls st @ [Some sid],
           servers := servers st @ [next_server st],
           next_server := Suc (next_server st),
           close_handlers := close_handlers st @ [(conn, sid, next_server st)]\<rparr>)"
  by (simp add: sse_get_def sse_bound_def sse_accept_def create_finish_def factory_start_def)

text \<open>
  C7, as the code has it. No \<open>POST\<close> and no request of another method changes the state:
  neither ever creates a session. A \<open>POST\<close> whose \<open>sessionId\<close> is not empty and has no
  connection bound is answered 404 \<open>Session not found\<close>; one whose \<open>sessionId\<close> is
  missing or empty is answered 400 \<open>Missing sessionId\<close>. A \<open>GET\<close> whose factory call
  succeeds creates the server of the connection; when that connection closes after the
  \<open>GET\<close> has run to its end (the server made, the \<open>close\<close> listener registered), the
  server leaves the registry and is closed, the session id is forgotten, and a later
  \<open>POST\<close> naming it is answered 404. Nothing is said here of a connection that closes
  while its \<open>GET\<close> is still awaiting the factory.
\<close>

theorem sse_sessions_only_on_connect:
  "snd (sse_post st param) = st \<and>
   snd (sse_other st) = st \<and>
   sse_post st None = (Status 400 ''Missing sessionId'', st) \<and>
   sse_post st (Some []) = (Status 400 ''Missing sessionId'', st) \<and>
   (sid \<noteq> [] \<and> map_of (transports st) sid = None \<longrightarrow>
      sse_post st (Some sid) = (Status 404 ''Session not found'', st)) \<and>
   (provision (Some sid) \<longrightarrow>
      fst (sse_get provision st conn sid) = Connected (next_server st) \<and>
      servers (snd (sse_get provision st conn sid)) = servers st @ [next_server st] \<and>
      map_of (transports (snd (sse_get provision st conn sid))) sid = Some conn) \<and>
   (provision (Some sid) \<and> sid \<noteq> [] \<and> next_server st \<notin> set (servers st) \<and>
    map_of (close_handlers st) conn = None \<longrightarrow>
      closes (sse_close release (snd (sse_get provision st conn sid)) conn)
        = closes st @ [next_server st] \<and>
      servers (sse_close release (snd (sse_get provision st conn sid)) conn) = servers st \<and>
      map_of (transports (sse_close release (snd (sse_get provision st conn sid)) conn)) sid
        = None \<and>
      sse_post (sse_close release (snd (sse_get provision st conn sid)) conn) (Some sid)
        = (Status 404 ''Session not found'',
           sse_close release (snd (sse_get provision st conn sid)) conn))"
proof (intro conjI impI)
  show "snd (sse_post st param) = st"
    by (simp add: sse_post_def split: option.splits)
  show "snd (sse_other st) = st" by (simp add: sse_other_def)
  show "sse_post st None = (Status 400 ''Missing sessionId'', st)" by (simp add: sse_post_def)
  show "sse_post st (Some []) = (Status 400 ''Missing sessionId'', st)"
    by (simp add: sse_post_def)
  show "sse_post st (Some sid) = (Status 404 ''Session not found'', st)"
    if "sid \<noteq> [] \<and> map_of (transports st) sid = None"
    using that by (simp add: sse_post_def)
next
  assume p: "provision (Some sid)"
  show "fst (sse_get provision st conn sid) = Connected (next_server st)"
    by (simp add: sse_get_ok p)
  show "servers (snd (sse_get provision st conn sid)) = servers st @ [next_server st]"
    by (simp add: sse_get_ok p)
  show "map_of (transports (snd (sse_get provision st conn sid))) sid = Some conn"
    by (simp add: sse_get_ok p update_conv')
next
  assume a: "provision (Some sid) \<and> sid \<noteq> [] \<and> next_server st \<notin> set (servers st) \<and>
    map_of (close_handlers st) conn = None"
  then have p: "provision (Some sid)" and ne: "sid \<noteq> []"
    and fresh: "next_server st \<notin> set (servers st)"
    and nh: "map_of (close_handlers st) conn = None" by simp_all
  define st1 where "st1 = snd (sse_get provision st conn sid)"
  have h: "map_of (close_handlers st1) conn = Some (sid, next_server st)"
    by (simp add: st1_def sse_get_ok p nh map_add_def)
  define st2 where "st2 = sse_close release st1 conn"
  have c: "closes st2 = closes st @ [next_server st]"
    by (simp add: st2_def sse_close_def h serverList_close_def) (simp add: st1_def sse_get_ok p)
  have s: "servers st2 = servers st"
    by (simp add: st2_def sse_close_def h serverList_close_def)
      (simp add: st1_def sse_get_ok p remove1_append fresh)
  have t: "map_of (transports st2) sid = None"
    by (simp add: st2_def sse_close_def h serverList_close_def delete_conv')
  show "closes (sse_close release (snd (sse_get provision st conn sid)) conn)
        = closes st @ [next_server st]"
    using c by (simp add: st2_def st1_def)
  show "servers (sse_close release (snd (sse_get provision st conn sid)) conn) = servers st"
    using s by (simp add: st2_def st1_def)
  show "map_of (transports (sse_close release (snd (sse_get provision st conn sid)) conn)) sid
        = None"
    using t by (simp add: st2_def st1_def)
  have "sse_post st2 (Some sid) = (Status 404 ''Session not found'', st2)"
    using ne t by (simp add: sse_post_def)
  then show "sse_post (sse_close release (snd (sse_get provision st conn sid)) conn) (Some sid)
        = (Status 404 ''Session not found'',
           sse_close release (snd (sse_get provision st conn sid)) conn)"
    by (simp add: st2_def st1_def)
qed

theorem sse_sessions_only_on_connect_witness:
  "sse_post init (Some ''abc'') = (Status 404 ''Session not found'', init) \<and>
   fst (sse_get (\<lambda>k. True) init 7 ''abc'') = Connected 0 \<and>
   fst (sse_post (snd (sse_get (\<lambda>k. True) init 7 ''abc'')) (Some ''abc'')) = PostHandled 7 \<and>
   closes (sse_close (\<lambda>s. Resolves 0) (snd (sse_get (\<lambda>k. True) init 7 ''abc'')) 7) = [0] \<and>
   servers (sse_close (\<lambda>s. Resolves 0) (snd (sse_get (\<lambda>k. True) init 7 ''abc'')) 7) = [] \<and>
   fst (sse_post (sse_close (\<lambda>s. Resolves 0) (snd (sse_get (\<lambda>k. True) init 7 ''abc'')) 7)
          (Some ''abc''))
     = Status 404 ''Session not found''"
proof -
  let ?ok = "\<lambda>k::string option. True"
  let ?r = "\<lambda>s::server. Resolves 0"
  have a: "''abc'' \<noteq> [] \<and> map_of (transports init) ''abc'' = None" by (simp add: init_def)
  have b: "?ok (Some ''abc'') \<and> ''abc'' \<noteq> [] \<and> next_server init \<notin> set (servers init) \<and>
    map_of (close_handlers init) 7 = None" by (simp add: init_def)
  note t = sse_sessions_only_on_connect [of init _ "''abc''" ?ok 7 ?r]
  from t a have 1: "sse_post init (Some ''abc'') = (Status 404 ''Session not found'', init)"
    by blast
  from t b have 2: "fst (sse_get ?ok init 7 ''abc'') = Connected (next_server init)"
    and 3: "closes (sse_close ?r (snd (sse_get ?ok init 7 ''abc'')) 7)
              = closes init @ [next_server init]"
    and 4: "servers (sse_close ?r (snd (sse_get ?ok init 7 ''abc'')) 7) = servers init"
    and 5: "sse_post (sse_close ?r (snd (sse_get ?ok init 7 ''abc'')) 7) (Some ''abc'')
        = (Status 404 ''Session not found'', sse_close ?r (snd (sse_get ?ok init 7 ''abc'')) 7)"
    by blast+
  have 6: "fst (sse_post (snd (sse_get ?ok init 7 ''abc'')) (Some ''abc'')) = PostHandled 7"
    by (simp add: sse_get_ok sse_post_def init_def)
  from 1 2 3 4 5 6 show ?thesis by (simp add: init_def)
qed

text \<open>
  C7 as stated fails for the empty \<open>sessionId\<close>, which has no connection bound: the
  answer is 400 \<open>Missing sessionId\<close>, not 404.
\<close>

theorem sse_post_counterexample:
  "map_of (transports init) [] = None \<and>
   sse_post init (Some []) = (Status 400 ''Missing sessionId'', init) \<and>
   fst (sse_post init (Some [])) \<noteq> Status 404 ''Session not found''"
  by (simp add: sse_post_def init_def)

subsection \<open>The discovery route\<close>






subsection \<open>Shutdown\<close>

lemma fold_close_session:
  "fold (close_session release) es (ps, st) = (ps', st') \<Longrightarrow>
   closes st' = closes st @ map snd es \<and> exit_timers st' = exit_timers st \<and>
   ps' = ps @ map (release \<circ> snd) es"
proof (induction es arbitrary: ps st)
  case Nil
  then show ?case by simp
next
  case (Cons e es)
  obtain k srv where e: "e = (k, srv)" by (cases e)
  define st1 where "st1 = snd (close_session release e (ps, st))"
  have step: "close_session release e (ps, st) = (ps @ [release srv], st1)"
    by (simp add: st1_def e close_session_def serverList_close_def split: option.splits)
  have c1: "closes st1 = closes st @ [srv]" and x1: "exit_timers st1 = exit_timers st"
    by (simp_all add: st1_def e close_session_def serverList_close_def split: option.splits)
  from Cons.prems have "fold (close_session release) es (ps @ [release srv], st1) = (ps', st')"
    by (simp add: step)
  from Cons.IH [OF this] show ?case by (simp add: c1 x1 e)
qed

lemma close_sessions_effect:
  "closes (snd (close_sessions release st)) = closes st @ map snd (sessions st) \<and>
   exit_timers (snd (close_sessions release st)) = exit_timers st \<and>
   sessions (snd (close_sessions release st)) = [] \<and>
   fst (close_sessions release st) = promise_all (map (release \<circ> snd) (sessions st))"
proof -
  obtain ps' st' where f: "fold (close_session release) (sessions st) ([], st) = (ps', st')"
    by (cases "fold (close_session release) (sessions st) ([], st)")
  from fold_close_session [OF f] show ?thesis
    by (simp add: close_sessions_def f)
qed

lemma handleExit_effect:
  "closes (snd (handleExit release st)) = closes st @ servers st \<and>
   exit_timers (snd (handleExit release st)) = exit_timers st @ [now st + force_exit_after] \<and>
   now (snd (handleExit release st)) = now st \<and>
   sessions (snd (handleExit release st)) = sessions st \<and>
   fst (handleExit release st) \<le> now st + force_exit_after"
  by (cases "promise_all (map release (servers st))")
    (simp_all add: handleExit_def closeAll_def Let_def)

lemma gracefulShutdown_effect:
  "set (closes st) \<subseteq> set (closes (snd (gracefulShutdown release httpClosed st))) \<and>
   set (exit_timers st) \<subseteq> set (exit_timers (snd (gracefulShutdown release httpClosed st))) \<and>
   now st + force_exit_after \<in> set (exit_timers (snd (gracefulShutdown release httpClosed st))) \<and>
   fst (gracefulShutdown release httpClosed st) \<le> now st + force_exit_after"
proof (cases httpClosed)
  case None
  then show ?thesis by (auto simp: gracefulShutdown_def Let_def)
next
  case (Some d)
  let ?st1 = "st\<lparr>exit_timers := exit_timers st @ [now st + force_exit_after]\<rparr>"
  obtain r st2 where cs: "close_sessions release ?st1 = (r, st2)"
    by (cases "close_sessions release ?st1")
  from close_sessions_effect [of release ?st1] cs
  have "closes st2 = closes st @ map snd (sessions st)"
    and "exit_timers st2 = exit_timers st @ [now st + force_exit_after]"
    by simp_all
  with Some cs show ?thesis
    by (cases r) (auto simp: gracefulShutdown_def Let_def)
qed

text \<open>
  C9. On the close of standard input and on either termination signal, in every mode,
  the shutdown handler arms a timer that exits 15 seconds later and calls \<open>close()\<close> on
  every server of the registry; whatever the releases do (succeed, fail or hang) and
  whether or not the HTTP server ever finishes closing, \<open>process.exit\<close> has been called
  15 seconds after the signal at the latest. With a release that hangs, the exit of
  \<open>handleExit\<close> is the timer's. In HTTP mode, when the HTTP server has closed within
  the 15 seconds, the callback of \<open>gracefulShutdown\<close> empties the sessions map and closes
  each of its servers through the registry.
\<close>

theorem shutdown_closes_sessions_and_exits_in_time:
  "force_exit_after = 15000 \<and>
   fst (on_signal m release httpClosed sig st) \<le> now st + force_exit_after \<and>
   now st + force_exit_after \<in> set (exit_timers (snd (on_signal m release httpClosed sig st))) \<and>
   set (servers st) \<subseteq> set (closes (snd (on_signal m release httpClosed sig st))) \<and>
   closes (snd (handleExit release st)) = closes st @ servers st \<and>
   (s0 \<in> set (servers st) \<and> release s0 = Hangs \<longrightarrow>
      fst (handleExit release st) = now st + force_exit_after) \<and>
   (d < force_exit_after \<longrightarrow>
      sessions (snd (gracefulShutdown release (Some d) st)) = [] \<and>
      closes (snd (gracefulShutdown release (Some d) st))
        = closes st @ map snd (sessions st))"
proof (intro conjI impI)
  show "force_exit_after = 15000" by (simp add: force_exit_after_def)
  obtain t1 st1 where h: "handleExit release st = (t1, st1)"
    by (cases "handleExit release st")
  from handleExit_effect [of release st] h
  have c1: "closes st1 = closes st @ servers st"
    and x1: "exit_timers st1 = exit_timers st @ [now st + force_exit_after]"
    and n1: "now st1 = now st" and t1: "t1 \<le> now st + force_exit_after"
    by simp_all
  define hc where "hc = (case httpClosed of
                           Some d \<Rightarrow> if now st + d < t1 then Some d else None
                         | None \<Rightarrow> None)"
  obtain t2 st2 where g: "gracefulShutdown release hc st1 = (t2, st2)"
    by (cases "gracefulShutdown release hc st1")
  from gracefulShutdown_effect [of st1 release hc] g
  have c2: "set (closes st1) \<subseteq> set (closes st2)"
    and x2: "set (exit_timers st1) \<subseteq> set (exit_timers st2)"
    by simp_all
  show "fst (on_signal m release httpClosed sig st) \<le> now st + force_exit_after"
    using t1 g by (auto simp: on_signal_def h hc_def min_def)
  show "now st + force_exit_after
          \<in> set (exit_timers (snd (on_signal m release httpClosed sig st)))"
    using x1 x2 g by (auto simp: on_signal_def h hc_def)
  show "set (servers st) \<subseteq> set (closes (snd (on_signal m release httpClosed sig st)))"
    using c1 c2 g by (auto simp: on_signal_def h hc_def)
  show "closes (snd (handleExit release st)) = closes st @ servers st"
    by (simp add: handleExit_effect)
next
  assume a: "s0 \<in> set (servers st) \<and> release s0 = Hangs"
  then have mem: "Hangs \<in> set (map release (servers st))" by force
  have "\<not> resolves (promise_all (map release (servers st)))"
  proof
    assume "resolves (promise_all (map release (servers st)))"
    then obtain t where "promise_all (map release (servers st)) = Resolves t"
      by (cases "promise_all (map release (servers st))") simp_all
    from promise_all_Resolves [OF this mem] show False by simp
  qed
  then show "fst (handleExit release st) = now st + force_exit_after"
    by (cases "promise_all (map release (servers st))")
      (simp_all add: handleExit_def closeAll_def Let_def)
next
  assume d: "d < force_exit_after"
  let ?st1 = "st\<lparr>exit_timers := exit_timers st @ [now st + force_exit_after]\<rparr>"
  obtain r st2 where cs: "close_sessions release ?st1 = (r, st2)"
    by (cases "close_sessions release ?st1")
  from close_sessions_effect [of release ?st1] cs
  have c: "closes st2 = closes st @ map snd (sessions st)" and s: "sessions st2 = []"
    by simp_all
  have "snd (gracefulShutdown release (Some d) st) = st2"
    using d cs by (cases r) (simp_all add: gracefulShutdown_def Let_def)
  then show "sessions (snd (gracefulShutdown release (Some d) st)) = []"
    and "closes (snd (gracefulShutdown release (Some d) st))
        = closes st @ map snd (sessions st)"
    using c s by simp_all
qed

theorem shutdown_closes_sessions_and_exits_in_time_witness:
  "(100::nat) < force_exit_after \<and>
   0 \<in> set (servers (init\<lparr>servers := [0], sessions := [(''default'', 0)]\<rparr>)) \<and>
   fst (handleExit (\<lambda>s. Hangs) (init\<lparr>servers := [0], sessions := [(''default'', 0)]\<rparr>))
     = 15000 \<and>
   on_signal Http (\<lambda>s. Hangs) (Some 100) SIGTERM
       (init\<lparr>servers := [0], sessions := [(''default'', 0)]\<rparr>)
     = (15000, init\<lparr>servers := [], sessions := [], closes := [0, 0],
                     exit_timers := [15000, 15000]\<rparr>) \<and>
   gracefulShutdown (\<lambda>s. Hangs) (Some 100)
       (init\<lparr>servers := [0], sessions := [(''default'', 0)]\<rparr>)
     = (15000, init\<lparr>servers := [], sessions := [], closes := [0], exit_timers := [15000]\<rparr>)"
proof -
  let ?st = "init\<lparr>servers := [0], sessions := [(''default'', 0)]\<rparr>"
  have d: "(100::nat) < force_exit_after" by (simp add: force_exit_after_def)
  have h: "0 \<in> set (servers ?st) \<and> (\<lambda>s::server. Hangs) 0 = Hangs" by (simp add: init_def)
  from shutdown_closes_sessions_and_exits_in_time
         [of Http "\<lambda>s. Hangs" "Some 100" SIGTERM ?st 0 100] d h
  have "fst (on_signal Http (\<lambda>s. Hangs) (Some 100) SIGTERM ?st) \<le> now ?st + force_exit_after"
    and "sessions (snd (gracefulShutdown (\<lambda>s. Hangs) (Some 100) ?st)) = []"
    and "fst (handleExit (\<lambda>s. Hangs) ?st) = now ?st + force_exit_after"
    by blast+
  moreover have "on_signal Http (\<lambda>s. Hangs) (Some 100) SIGTERM ?st
     = (15000, init\<lparr>servers := [], sessions := [], closes := [0, 0],
                     exit_timers := [15000, 15000]\<rparr>)"
    by (simp add: on_signal_def handleExit_def closeAll_def gracefulShutdown_def
        close_sessions_def close_session_def serverList_close_def promise_all_def
        force_exit_after_def init_def Let_def)
  moreover have "gracefulShutdown (\<lambda>s. Hangs) (Some 100) ?st
     = (15000, init\<lparr>servers := [], sessions := [], closes := [0], exit_timers := [15000]\<rparr>)"
    by (simp add: gracefulShutdown_def close_sessions_def close_session_def
        serverList_close_def promise_all_def force_exit_after_def init_def Let_def)
  ultimately show ?thesis using d h by (simp add: init_def force_exit_after_def)
qed

subsection \<open>Idle eviction\<close>

lemma set_clearTimeout: "set (clearTimeout h ts) = {x \<in> set ts. fst x \<noteq> h}"
  by (auto simp: clearTimeout_def AList.delete_eq)

lemma reset_timer_rearms:
  assumes "registered st k"
  shows "timers_of (reset_timer st k) k = [(next_timer st, now st + sessionTimeout)]"
proof -
  define ts where "ts = (case map_of (sessionTimers st) k of
                           Some h \<Rightarrow> clearTimeout h (timers st) | None \<Rightarrow> timers st)"
  have none: "filter (\<lambda>(h, k', deadline). k' = k) ts = []"
  proof (cases "map_of (sessionTimers st) k")
    case None
    with assms show ?thesis
      by (auto simp: ts_def registered_def filter_empty_conv)
  next
    case (Some h0)
    with assms show ?thesis
      by (auto simp: ts_def registered_def filter_empty_conv set_clearTimeout)
  qed
  have "timers (reset_timer st k) = ts @ [(next_timer st, k, now st + sessionTimeout)]"
    by (simp add: reset_timer_def Let_def ts_def split: option.splits)
  then show ?thesis by (simp add: timers_of_def none)
qed

lemma reset_timer_registers:
  "map_of (sessionTimers (reset_timer st k)) k = Some (next_timer st)"
  by (simp add: reset_timer_def Let_def update_conv' split: option.splits)

lemma reset_timer_now: "now (reset_timer st k) = now st"
  by (simp add: reset_timer_def Let_def split: option.splits)

lemma getOrCreate_timers:
  "timers (snd (getOrCreate provision st k)) = timers st"
  "sessionTimers (snd (getOrCreate provision st k)) = sessionTimers st"
  "next_timer (snd (getOrCreate provision st k)) = next_timer st"
  "now (snd (getOrCreate provision st k)) = now st"
  by (simp_all add: getOrCreate_def serverList_create_def create_finish_def factory_start_def
      split: option.splits)

lemma getOrCreate_binds:
  "fst (getOrCreate provision st k) = Inr srv \<Longrightarrow>
   map_of (sessions (snd (getOrCreate provision st k))) k = Some srv"
  by (auto simp: getOrCreate_def serverList_create_def create_finish_def factory_start_def
      update_conv' split: option.splits if_splits)

lemma middleware_rearms:
  assumes reg: "registered st (sessionId_of header)"
    and ok: "fst (middleware provision st header) = Inr (srv, k)"
  shows "k = sessionId_of header"
    and "timers_of (snd (middleware provision st header)) k
           = [(next_timer st, now st + sessionTimeout)]"
    and "map_of (sessionTimers (snd (middleware provision st header))) k = Some (next_timer st)"
    and "map_of (sessions (snd (middleware provision st header))) k = Some srv"
    and "now (snd (middleware provision st header)) = now st"
proof -
  let ?k = "sessionId_of header"
  obtain r st1 where g: "getOrCreate provision st ?k = (r, st1)"
    by (cases "getOrCreate provision st ?k")
  from ok g have r: "r = Inr srv" and k: "k = ?k"
    by (auto simp: middleware_def Let_def split: sum.splits)
  from g r have m: "middleware provision st header = (Inr (srv, ?k), reset_timer st1 ?k)"
    by (simp add: middleware_def Let_def)
  from getOrCreate_timers [of provision st ?k] g
  have t1: "timers st1 = timers st" "sessionTimers st1 = sessionTimers st"
    "next_timer st1 = next_timer st" "now st1 = now st" by simp_all
  from reg t1 have reg1: "registered st1 ?k" by (simp add: registered_def)
  from getOrCreate_binds [of provision st ?k srv] g r
  have b: "map_of (sessions st1) ?k = Some srv" by simp
  show "k = sessionId_of header" by (rule k)
  show "timers_of (snd (middleware provision st header)) k
           = [(next_timer st, now st + sessionTimeout)]"
    using reset_timer_rearms [OF reg1] by (simp add: m k t1)
  show "map_of (sessionTimers (snd (middleware provision st header))) k = Some (next_timer st)"
    using reset_timer_registers [of st1 ?k] by (simp add: m k t1)
  show "map_of (sessions (snd (middleware provision st header))) k = Some srv"
    by (simp add: m k sessions_reset_timer b)
  show "now (snd (middleware provision st header)) = now st"
    by (simp add: m reset_timer_now t1)
qed

lemma on_timeout_frame:
  "timers (on_timeout release st k') = timers st"
  "now (on_timeout release st k') = now st"
  by (simp_all add: on_timeout_def serverList_close_def split: option.splits)

lemma on_timeout_other:
  "k \<noteq> k' \<Longrightarrow> map_of (sessions (on_timeout release st k')) k = map_of (sessions st) k"
  by (simp add: on_timeout_def serverList_close_def delete_conv' split: option.splits)

lemma fire_quiet:
  assumes q: "\<forall>(h, k', d) \<in> set (timers st). k' = k \<longrightarrow> now st < d"
  shows "map_of (sessions (fire release st h)) k = map_of (sessions st) k"
    and "\<forall>(h', k', d) \<in> set (timers (fire release st h)).
           k' = k \<longrightarrow> now (fire release st h) < d"
proof -
  show "map_of (sessions (fire release st h)) k = map_of (sessions st) k"
  proof (cases "map_of (timers st) h")
    case None
    then show ?thesis by (simp add: fire_def)
  next
    case (Some kd)
    obtain k' d where kd: "kd = (k', d)" by (cases kd)
    from Some kd have "(h, k', d) \<in> set (timers st)" by (simp add: map_of_SomeD)
    with q have "k' = k \<longrightarrow> now st < d" by auto
    then show ?thesis
      using Some kd by (auto simp: fire_def on_timeout_other)
  qed
  have sub: "set (timers (fire release st h)) \<subseteq> set (timers st)"
    by (auto simp: fire_def on_timeout_frame set_clearTimeout split: option.splits if_splits)
  have n: "now (fire release st h) = now st"
    by (simp add: fire_def on_timeout_frame split: option.splits)
  from q sub show "\<forall>(h', k', d) \<in> set (timers (fire release st h)).
      k' = k \<longrightarrow> now (fire release st h) < d"
    unfolding n by blast
qed

lemma foldl_fire_quiet:
  "\<forall>(h, k', d) \<in> set (timers st). k' = k \<longrightarrow> now st < d \<Longrightarrow>
   map_of (sessions (foldl (fire release) st hs)) k = map_of (sessions st) k"
proof (induction hs arbitrary: st)
  case Nil
  show ?case by simp
next
  case (Cons h hs)
  from fire_quiet [OF Cons.prems, of release h]
  have 1: "map_of (sessions (fire release st h)) k = map_of (sessions st) k"
    and 2: "\<forall>(h', k', d) \<in> set (timers (fire release st h)).
              k' = k \<longrightarrow> now (fire release st h) < d"
    by simp_all
  from Cons.IH [OF 2] 1 show ?case by simp
qed

lemma timers_of_mem:
  "(h, k, d) \<in> set (timers st) \<longleftrightarrow> (h, d) \<in> set (timers_of st k)"
  by (auto simp: timers_of_def image_iff)

lemma advance_survives:
  assumes one: "timers_of st k = [(h, deadline)]" and t: "t < deadline"
  shows "map_of (sessions (advance release t st)) k = map_of (sessions st) k"
proof -
  let ?st = "st\<lparr>now := t\<rparr>"
  have "\<forall>(h', k', d) \<in> set (timers ?st). k' = k \<longrightarrow> now ?st < d"
  proof (clarsimp)
    fix h' d assume "(h', k, d) \<in> set (timers st)"
    then have "(h', d) \<in> set (timers_of st k)" by (simp add: timers_of_mem)
    with one t show "t < d" by simp
  qed
  then have "map_of (sessions (foldl (fire release) ?st (due ?st))) k = map_of (sessions ?st) k"
    by (rule foldl_fire_quiet)
  then show ?thesis by (simp add: advance_def expire_def)
qed

lemma fire_evicts:
  assumes h: "map_of (timers st) h = Some (k, d)" and due: "d \<le> now st"
    and s: "map_of (sessions st) k = Some srv" and r: "resolves (release srv)"
    and reg: "registered st k"
  shows "map_of (sessions (fire release st h)) k = None"
    and "map_of (sessionTimers (fire release st h)) k = None"
    and "closes (fire release st h) = closes st @ [srv]"
    and "servers (fire release st h) = remove1 srv (servers st)"
    and "timers_of (fire release st h) k = []"
proof -
  have f: "fire release st h
     = st\<lparr>timers := clearTimeout h (timers st),
          servers := remove1 srv (servers st), closes := closes st @ [srv],
          sessions := AList.delete k (sessions st),
          sessionTimers := AList.delete k (sessionTimers st)\<rparr>"
    using h due s r by (simp add: fire_def on_timeout_def serverList_close_def)
  show "map_of (sessions (fire release st h)) k = None" by (simp add: f delete_conv')
  show "map_of (sessionTimers (fire release st h)) k = None" by (simp add: f delete_conv')
  show "closes (fire release st h) = closes st @ [srv]" by (simp add: f)
  show "servers (fire release st h) = remove1 srv (servers st)" by (simp add: f)
  from h have "(h, k, d) \<in> set (timers st)" by (simp add: map_of_SomeD)
  with reg have hk: "map_of (sessionTimers st) k = Some h" by (auto simp: registered_def)
  have "filter (\<lambda>(h', k', deadline). k' = k) (clearTimeout h (timers st)) = []"
    using reg hk by (auto simp: filter_empty_conv set_clearTimeout registered_def)
  then show "timers_of (fire release st h) k = []" by (simp add: f timers_of_def)
qed


lemma registered_reset_timer:
  assumes sid: "registered st sid" and k: "registered st k"
  shows "registered (reset_timer st sid) k"
proof -
  define ts where "ts = (case map_of (sessionTimers st) sid of
                           Some h \<Rightarrow> clearTimeout h (timers st) | None \<Rightarrow> timers st)"
  have T: "timers (reset_timer st sid) = ts @ [(next_timer st, sid, now st + sessionTimeout)]"
    by (simp add: reset_timer_def Let_def ts_def split: option.splits)
  have sub: "set ts \<subseteq> set (timers st)"
    by (auto simp: ts_def set_clearTimeout split: option.splits)
  have none: "\<forall>(h, k', d) \<in> set ts. k' \<noteq> sid"
    using sid by (auto simp: ts_def registered_def set_clearTimeout split: option.splits)
  have ST: "map_of (sessionTimers (reset_timer st sid))
              = (map_of (sessionTimers st))(sid \<mapsto> next_timer st)"
    by (simp add: reset_timer_def Let_def update_conv' split: option.splits)
  show ?thesis
  proof (cases "k = sid")
    case True
    with none show ?thesis by (auto simp: registered_def T ST)
  next
    case False
    with k sub show ?thesis by (auto simp: registered_def T ST)
  qed
qed

lemma registered_cong:
  "timers st' = timers st \<Longrightarrow> sessionTimers st' = sessionTimers st \<Longrightarrow>
   registered st' k = registered st k"
  by (simp add: registered_def)

lemma registered_mw_begin:
  assumes "\<forall>k. registered st k"
  shows "registered (mw_begin st header) k"
proof (cases "map_of (sessions st) (sessionId_of header)")
  case None
  then have "registered (mw_begin st header) k = registered st k"
    by (simp add: mw_begin_def Let_def factory_start_def registered_def)
  with assms show ?thesis by simp
next
  case (Some srv)
  then have "mw_begin st header = reset_timer st (sessionId_of header)"
    by (simp add: mw_begin_def Let_def)
  with assms show ?thesis by (simp add: registered_reset_timer)
qed

lemma registered_mw_resume:
  assumes a: "\<forall>k. registered st k"
  shows "registered (mw_resume provision st i) k"
proof (cases "i < length (pending st) \<and> provision (Some (pending st ! i))")
  case False
  then have "registered (mw_resume provision st i) k = registered st k"
    by (auto simp: mw_resume_def Let_def create_finish_def registered_def)
  with a show ?thesis by simp
next
  case True
  define sid where "sid = pending st ! i"
  define st1 where "st1 = st\<lparr>pending := take i (pending st) @ drop (Suc i) (pending st),
      servers := servers st @ [next_server st], next_server := Suc (next_server st),
      sessions := AList.update sid (next_server st) (sessions st)\<rparr>"
  from True have m: "mw_resume provision st i = reset_timer st1 sid"
    by (simp add: mw_resume_def Let_def create_finish_def st1_def sid_def)
  have "\<And>k. registered st1 k = registered st k"
    by (rule registered_cong) (simp_all add: st1_def)
  with a have "\<forall>k. registered st1 k" by simp
  then show ?thesis unfolding m by (simp add: registered_reset_timer)
qed

lemma registered_fire:
  assumes a: "\<forall>k. registered st k"
  shows "registered (fire release st h) k"
proof (cases "map_of (timers st) h")
  case None
  with a show ?thesis by (simp add: fire_def)
next
  case (Some kd)
  obtain k' d where kd: "kd = (k', d)" by (cases kd)
  show ?thesis
  proof (cases "d \<le> now st")
    case False
    with Some kd a show ?thesis by (simp add: fire_def)
  next
    case True
    let ?st1 = "st\<lparr>timers := clearTimeout h (timers st)\<rparr>"
    have f: "fire release st h = on_timeout release ?st1 k'"
      using Some kd True by (simp add: fire_def)
    from Some kd have mem: "(h, k', d) \<in> set (timers st)" by (simp add: map_of_SomeD)
    with a have hk: "map_of (sessionTimers st) k' = Some h" by (auto simp: registered_def)
    have tm: "timers (fire release st h) = clearTimeout h (timers st)"
      by (simp add: f on_timeout_frame)
    have st_cases: "sessionTimers (fire release st h) = sessionTimers st \<or>
                    sessionTimers (fire release st h) = AList.delete k' (sessionTimers st)"
      by (simp add: f on_timeout_def serverList_close_def split: option.splits)
    have regk: "registered st k" using a by simp
    have regk': "registered st k'" using a by simp
    from st_cases show ?thesis
    proof
      assume "sessionTimers (fire release st h) = sessionTimers st"
      with regk show ?thesis by (auto simp: registered_def tm set_clearTimeout)
    next
      assume del: "sessionTimers (fire release st h) = AList.delete k' (sessionTimers st)"
      show ?thesis
      proof (cases "k = k'")
        case True
        with regk' hk show ?thesis
          by (auto simp: registered_def tm del set_clearTimeout)
      next
        case False
        with regk show ?thesis
          by (auto simp: registered_def tm del set_clearTimeout delete_conv')
      qed
    qed
  qed
qed

lemma registered_step:
  assumes "\<forall>k. registered st k"
  shows "registered (step provision release st ev) k"
proof (cases ev)
  case (Request header)
  with assms show ?thesis by (simp add: registered_mw_begin)
next
  case (FactoryDone i)
  with assms show ?thesis by (simp add: registered_mw_resume)
next
  case (Tick d)
  have "registered (st\<lparr>now := now st + d\<rparr>) k = registered st k"
    by (rule registered_cong) simp_all
  with Tick assms show ?thesis by simp
next
  case (Timeout h)
  with assms show ?thesis by (simp add: registered_fire)
qed

lemma registered_foldl:
  "\<forall>k. registered st k \<Longrightarrow> registered (foldl (step provision release) st evs) k"
proof (induction evs arbitrary: st k)
  case Nil
  then show ?case by simp
next
  case (Cons ev evs)
  from Cons.prems have "\<forall>k. registered (step provision release st ev) k"
    by (simp add: registered_step)
  then show ?case by (simp add: Cons.IH)
qed

lemma registered_reachable: "registered (run provision release evs init) k"
proof -
  have "\<forall>k. registered init k" by (simp add: registered_def init_def)
  then show ?thesis unfolding run_def by (rule registered_foldl)
qed

text \<open>
  C3, as the code has it. The session timeout is 30 minutes. In a state where every
  timer the runtime holds for a key is the one \<open>sessionTimers\<close> has for it, a request on
  the key that gets its server (bound already, or made by a factory call that succeeds)
  leaves exactly one timer for the key, a new one that is due 30 minutes after the
  request: the timer held before is cancelled, and the session is still bound at any
  time before the new deadline, also past the old one. When the timer of a key fires,
  with nothing else running meanwhile and the release of the server succeeding, the
  server leaves the registry and is closed, the key is no longer bound, its entry in
  \<open>sessionTimers\<close> is deleted and no timer is left for it. The condition on the timers
  holds for every key in every state the process reaches from its start by requests,
  factory completions, clock ticks and timer callbacks that run in one piece.
\<close>

theorem idle_timer_rearmed_and_session_evicted:
  "sessionTimeout = 1800000 \<and>
   (registered st (sessionId_of header) \<and>
    fst (middleware provision st header) = Inr (srv, k) \<longrightarrow>
      timers_of (snd (middleware provision st header)) k
        = [(next_timer st, now st + sessionTimeout)] \<and>
      map_of (sessionTimers (snd (middleware provision st header))) k
        = Some (next_timer st) \<and>
      (\<forall>t < now st + sessionTimeout.
         map_of (sessions (advance release t (snd (middleware provision st header)))) k
           = Some srv)) \<and>
   (registered st k \<and> map_of (timers st) h = Some (k, d) \<and> d \<le> now st \<and>
    map_of (sessions st) k = Some srv \<and> resolves (release srv) \<longrightarrow>
      map_of (sessions (fire release st h)) k = None \<and>
      map_of (sessionTimers (fire release st h)) k = None \<and>
      closes (fire release st h) = closes st @ [srv] \<and>
      servers (fire release st h) = remove1 srv (servers st) \<and>
      timers_of (fire release st h) k = []) \<and>
   registered (run provision release evs init) k0"
proof (intro conjI impI allI)
  show "sessionTimeout = 1800000" by (simp add: sessionTimeout_def)
  show "registered (run provision release evs init) k0" by (rule registered_reachable)
next
  assume a: "registered st (sessionId_of header) \<and>
    fst (middleware provision st header) = Inr (srv, k)"
  then have reg: "registered st (sessionId_of header)"
    and ok: "fst (middleware provision st header) = Inr (srv, k)" by simp_all
  note m = middleware_rearms [OF reg ok]
  show one: "timers_of (snd (middleware provision st header)) k
        = [(next_timer st, now st + sessionTimeout)]"
    by (rule m(2))
  show "map_of (sessionTimers (snd (middleware provision st header))) k
        = Some (next_timer st)"
    by (rule m(3))
  fix t assume "t < now st + sessionTimeout"
  with one have "map_of (sessions (advance release t (snd (middleware provision st header)))) k
           = map_of (sessions (snd (middleware provision st header))) k"
    by (rule advance_survives)
  with m(4) show "map_of (sessions (advance release t (snd (middleware provision st header)))) k
           = Some srv" by simp
next
  assume b: "registered st k \<and> map_of (timers st) h = Some (k, d) \<and> d \<le> now st \<and>
    map_of (sessions st) k = Some srv \<and> resolves (release srv)"
  then have h: "map_of (timers st) h = Some (k, d)" and due: "d \<le> now st"
    and s: "map_of (sessions st) k = Some srv" and r: "resolves (release srv)"
    and reg: "registered st k" by simp_all
  note f = fire_evicts [of st h k d srv release, OF h due s r reg]
  show "map_of (sessions (fire release st h)) k = None" by (rule f(1))
  show "map_of (sessionTimers (fire release st h)) k = None" by (rule f(2))
  show "closes (fire release st h) = closes st @ [srv]" by (rule f(3))
  show "servers (fire release st h) = remove1 srv (servers st)" by (rule f(4))
  show "timers_of (fire release st h) k = []" by (rule f(5))
qed

lemma first_request_eq:
  "first_request
     = init\<lparr>factory_calls := [Some ''default''], servers := [0], next_server := 1,
            sessions := [(''default'', 0)], timers := [(0, ''default'', 1800000)],
            next_timer := 1, sessionTimers := [(''default'', 0)]\<rparr>"
  by (simp add: first_request_def middleware_def getOrCreate_def serverList_create_def
      create_finish_def factory_start_def reset_timer_def sessionId_of_def ctx_get_def
      sessionTimeout_def init_def Let_def)

theorem idle_timer_rearmed_and_session_evicted_witness:
  "registered (first_request\<lparr>now := 1000000\<rparr>) (sessionId_of None) \<and>
   fst (middleware (\<lambda>k. True) (first_request\<lparr>now := 1000000\<rparr>) None) = Inr (0, ''default'') \<and>
   timers_of (snd (middleware (\<lambda>k. True) (first_request\<lparr>now := 1000000\<rparr>) None)) ''default''
     = [(1, 2800000)] \<and>
   map_of (sessions (advance (\<lambda>s. Resolves 0) 2000000
                       (snd (middleware (\<lambda>k. True) (first_request\<lparr>now := 1000000\<rparr>) None))))
       ''default''
     = Some 0 \<and>
   map_of (timers (first_request\<lparr>now := 1800000\<rparr>)) 0 = Some (''default'', 1800000) \<and>
   map_of (sessions (fire (\<lambda>s. Resolves 0) (first_request\<lparr>now := 1800000\<rparr>) 0)) ''default''
     = None \<and>
   closes (fire (\<lambda>s. Resolves 0) (first_request\<lparr>now := 1800000\<rparr>) 0) = [0] \<and>
   servers (fire (\<lambda>s. Resolves 0) (first_request\<lparr>now := 1800000\<rparr>) 0) = []"
proof -
  let ?ok = "\<lambda>k::string option. True"
  let ?r = "\<lambda>s::server. Resolves 0"
  let ?a = "first_request\<lparr>now := 1000000\<rparr>"
  let ?b = "first_request\<lparr>now := 1800000\<rparr>"
  have k: "sessionId_of None = ''default''" by (simp add: sessionId_of_def ctx_get_def)
  have rega: "registered ?a (sessionId_of None)"
    by (simp add: k registered_def first_request_eq init_def)
  have oka: "fst (middleware ?ok ?a None) = Inr (0, ''default'')"
    by (simp add: middleware_def getOrCreate_def k first_request_eq init_def Let_def)
  from idle_timer_rearmed_and_session_evicted
         [of ?a None ?ok 0 "''default''" ?r] rega oka
  have 1: "timers_of (snd (middleware ?ok ?a None)) ''default''
             = [(next_timer ?a, now ?a + sessionTimeout)]"
    and 2: "\<forall>t < now ?a + sessionTimeout.
              map_of (sessions (advance ?r t (snd (middleware ?ok ?a None)))) ''default''
                = Some 0"
    by blast+
  have 3: "map_of (sessions (advance ?r 2000000 (snd (middleware ?ok ?a None)))) ''default''
             = Some 0"
    using 2 by (simp add: first_request_eq init_def sessionTimeout_def)
  have regb: "registered ?b ''default''"
    by (simp add: registered_def first_request_eq init_def)
  have hb: "map_of (timers ?b) 0 = Some (''default'', 1800000)"
    by (simp add: first_request_eq init_def)
  have sb: "map_of (sessions ?b) ''default'' = Some 0"
    by (simp add: first_request_eq init_def)
  have db: "(1800000::nat) \<le> now ?b" by simp
  from idle_timer_rearmed_and_session_evicted
         [of ?b _ _ 0 "''default''" ?r 0 1800000] regb hb sb db
  have 4: "map_of (sessions (fire ?r ?b 0)) ''default'' = None"
    and 5: "closes (fire ?r ?b 0) = closes ?b @ [0]"
    and 6: "servers (fire ?r ?b 0) = remove1 0 (servers ?b)"
    by simp_all
  from rega oka 1 3 hb 4 5 6 show ?thesis
    by (simp add: first_request_eq init_def sessionTimeout_def)
qed

text \<open>
  C3 as stated fails in two places. When the release of the server fails, the timer's
  callback stops at its \<open>await\<close>: the server has left the registry and its close was
  called, but the key stays bound to it and its entry in \<open>sessionTimers\<close> stays. And a
  request whose factory call fails arms no timer.
\<close>

theorem idle_eviction_counterexample:
  "fire (\<lambda>s. Rejects 0) (first_request\<lparr>now := 1800000\<rparr>) 0
     = init\<lparr>factory_calls := [Some ''default''], servers := [], next_server := 1,
            sessions := [(''default'', 0)], timers := [], next_timer := 1,
            sessionTimers := [(''default'', 0)], closes := [0], now := 1800000\<rparr> \<and>
   middleware (\<lambda>k. False) init None
     = (Inl ProvisionError, init\<lparr>factory_calls := [Some ''default'']\<rparr>) \<and>
   timers (snd (middleware (\<lambda>k. False) init None)) = []"
  by (simp add: first_request_eq fire_def on_timeout_def serverList_close_def clearTimeout_def
      middleware_def getOrCreate_def serverList_create_def create_finish_def
      factory_start_def sessionId_of_def ctx_get_def init_def Let_def)

lemma on_timeout_begin_end:
  "on_timeout release st k
     = (case map_of (sessions st) k of
          Some srv \<Rightarrow>
            if resolves (release srv) then on_timeout_end (on_timeout_begin release st k) k
            else on_timeout_begin release st k
        | None \<Rightarrow> on_timeout_begin release st k)"
  by (simp add: on_timeout_def on_timeout_begin_def on_timeout_end_def serverList_close_def
      split: option.splits)

text \<open>
  Why the condition on the timers is needed: after a request has run while a timer
  callback was awaiting its close, the callback's \<open>sessionTimers.delete\<close> forgets the
  timer that request armed, and no later request clears it. Here the session is used at
  3500000, and the forgotten timer closes it at 3600000.
\<close>

lemma interleaved_callback_eq:
  "interleaved_callback
     = init\<lparr>factory_calls := [Some ''default'', Some ''default''], servers := [1],
            next_server := 2, closes := [0], sessions := [(''default'', 1)],
            timers := [(1, ''default'', 3600000), (3, ''default'', 5300000)],
            next_timer := 4, sessionTimers := [(''default'', 3)], now := 3500000\<rparr>"
  by (simp add: interleaved_callback_def first_request_eq on_timeout_begin_def
      on_timeout_end_def serverList_close_def clearTimeout_def middleware_def getOrCreate_def
      serverList_create_def create_finish_def factory_start_def reset_timer_def
      sessionId_of_def ctx_get_def sessionTimeout_def init_def Let_def)

lemma stale_timer_evicts_active_session:
  "\<not> registered interleaved_callback ''default'' \<and>
   map_of (sessions interleaved_callback) ''default'' = Some 1 \<and>
   map_of (sessions (advance (\<lambda>s. Resolves 0) 3600000 interleaved_callback)) ''default'' = None"
  by (simp add: interleaved_callback_eq registered_def advance_def expire_def due_def fire_def
      on_timeout_def serverList_close_def clearTimeout_def init_def)

subsection \<open>The profile directory\<close>

text \<open>
  C10. With no \<open>--user-data-dir\<close>, the directory the factory makes and uses for a session
  is \<open>path.join(cacheDirectory, 'ms-playwright', name)\<close>, where the name is
  \<open>mcp-<browser>-profile-<sessionId>\<close> exactly when the session id is present, not empty
  and not \<open>default\<close>, and \<open>mcp-<browser>-profile\<close> for an absent, empty or \<open>default\<close>
  session id; the factory fails when the directory cannot be made or the platform has
  no cache directory. The cache directory is the platform's (\<open>XDG_CACHE_HOME\<close> or
  \<open>~/.cache\<close>, \<open>~/Library/Caches\<close>, \<open>LOCALAPPDATA\<close> or \<open>~/AppData/Local\<close>). With
  \<open>--user-data-dir\<close> the directory is the configured one for every session. The
  directory is the one \<open>createServer\<close> is given. The default
  session of the Request/Response adapter asks the factory for \<open>default\<close>, the
  Single-Stream adapter for no session id: both get the same directory.
\<close>

theorem profile_directory_of_session:
  "profileDirName b None = ''mcp-'' @ browser_text b @ ''-profile'' \<and>
   profileDirName b (Some []) = ''mcp-'' @ browser_text b @ ''-profile'' \<and>
   profileDirName b (Some ''default'') = ''mcp-'' @ browser_text b @ ''-profile'' \<and>
   (profileDirName b (Some s) = ''mcp-'' @ browser_text b @ ''-profile-'' @ s)
     = (s \<noteq> [] \<and> s \<noteq> ''default'') \<and>
   (profileDirName b (Some s) = ''mcp-'' @ browser_text b @ ''-profile'')
     = (s = [] \<or> s = ''default'') \<and>
   (cacheDirectory join env = Inr c \<and>
    mkdir (join [c, ''ms-playwright'', profileDirName b sessionId]) \<longrightarrow>
      createUserDataDir join mkdir env b sessionId
        = Inr (join [c, ''ms-playwright'', profileDirName b sessionId]) \<and>
      effectiveUserDataDir join mkdir env None b sessionId
        = Inr (join [c, ''ms-playwright'', profileDirName b sessionId])) \<and>
   (cacheDirectory join env = Inr c \<and>
    \<not> mkdir (join [c, ''ms-playwright'', profileDirName b sessionId]) \<longrightarrow>
      effectiveUserDataDir join mkdir env None b sessionId = Inl MkdirFailed) \<and>
   (cacheDirectory join env = Inl e \<longrightarrow>
      effectiveUserDataDir join mkdir env None b sessionId = Inl e) \<and>
   effectiveUserDataDir join mkdir env (Some dir) b sessionId = Inr dir \<and>
   (cacheDirectory join env = Inr c \<and>
    mkdir (join [c, ''ms-playwright'', profileDirName b sessionId]) \<longrightarrow>
      serverFactory join mkdir env None b createServer sessionId
        = Inr (createServer (join [c, ''ms-playwright'', profileDirName b sessionId]))) \<and>
   serverFactory join mkdir env (Some dir) b createServer sessionId
     = Inr (createServer dir) \<and>
   serverFactory join mkdir env None b createServer (Some ''default'')
     = serverFactory join mkdir env None b createServer None \<and>
   cacheDirectory join (env\<lparr>process_platform := Linux, XDG_CACHE_HOME := Some (x # xs)\<rparr>)
     = Inr (x # xs) \<and>
   cacheDirectory join (env\<lparr>process_platform := Linux, XDG_CACHE_HOME := Some []\<rparr>)
     = Inr (join [homedir env, ''.cache'']) \<and>
   cacheDirectory join (env\<lparr>process_platform := Linux, XDG_CACHE_HOME := None\<rparr>)
     = Inr (join [homedir env, ''.cache'']) \<and>
   cacheDirectory join (env\<lparr>process_platform := Darwin\<rparr>)
     = Inr (join [homedir env, ''Library'', ''Caches'']) \<and>
   cacheDirectory join (env\<lparr>process_platform := Win32, LOCALAPPDATA := Some (x # xs)\<rparr>)
     = Inr (x # xs) \<and>
   cacheDirectory join (env\<lparr>process_platform := Win32, LOCALAPPDATA := Some []\<rparr>)
     = Inr (join [homedir env, ''AppData'', ''Local'']) \<and>
   cacheDirectory join (env\<lparr>process_platform := Win32, LOCALAPPDATA := None\<rparr>)
     = Inr (join [homedir env, ''AppData'', ''Local'']) \<and>
   cacheDirectory join (env\<lparr>process_platform := Other p\<rparr>) = Inl (UnsupportedPlatform p) \<and>
   effectiveUserDataDir join mkdir env None b (Some ''default'')
     = effectiveUserDataDir join mkdir env None b None \<and>
   effectiveUserDataDir join mkdir env None b (Some [])
     = effectiveUserDataDir join mkdir env None b None \<and>
   factory_calls (snd (middleware provision init None)) = [Some ''default''] \<and>
   factory_calls (snd (start_stdio provision init)) = [None]"
proof (intro conjI impI)
  show "profileDirName b None = ''mcp-'' @ browser_text b @ ''-profile''"
    by (simp add: profileDirName_def profileSuffix_def)
  show "profileDirName b (Some []) = ''mcp-'' @ browser_text b @ ''-profile''"
    by (simp add: profileDirName_def profileSuffix_def)
  show "profileDirName b (Some ''default'') = ''mcp-'' @ browser_text b @ ''-profile''"
    by (simp add: profileDirName_def profileSuffix_def)
  show "(profileDirName b (Some s) = ''mcp-'' @ browser_text b @ ''-profile-'' @ s)
     = (s \<noteq> [] \<and> s \<noteq> ''default'')"
    by (simp add: profileDirName_def profileSuffix_def)
  show "(profileDirName b (Some s) = ''mcp-'' @ browser_text b @ ''-profile'')
     = (s = [] \<or> s = ''default'')"
    by (simp add: profileDirName_def profileSuffix_def)
  show "effectiveUserDataDir join mkdir env (Some dir) b sessionId = Inr dir"
    by (simp add: effectiveUserDataDir_def)
  show "serverFactory join mkdir env (Some dir) b createServer sessionId
     = Inr (createServer dir)"
    by (simp add: serverFactory_def effectiveUserDataDir_def)
  show "serverFactory join mkdir env None b createServer (Some ''default'')
     = serverFactory join mkdir env None b createServer None"
    by (cases "cacheDirectory join env")
      (simp_all add: serverFactory_def effectiveUserDataDir_def createUserDataDir_def
        profileDirName_def profileSuffix_def)
  show "cacheDirectory join (env\<lparr>process_platform := Linux, XDG_CACHE_HOME := Some (x # xs)\<rparr>)
     = Inr (x # xs)"
    by (simp add: cacheDirectory_def env_or_def)
  show "cacheDirectory join (env\<lparr>process_platform := Linux, XDG_CACHE_HOME := Some []\<rparr>)
     = Inr (join [homedir env, ''.cache''])"
    by (simp add: cacheDirectory_def env_or_def)
  show "cacheDirectory join (env\<lparr>process_platform := Linux, XDG_CACHE_HOME := None\<rparr>)
     = Inr (join [homedir env, ''.cache''])"
    by (simp add: cacheDirectory_def env_or_def)
  show "cacheDirectory join (env\<lparr>process_platform := Darwin\<rparr>)
     = Inr (join [homedir env, ''Library'', ''Caches''])"
    by (simp add: cacheDirectory_def)
  show "cacheDirectory join (env\<lparr>process_platform := Win32, LOCALAPPDATA := Some (x # xs)\<rparr>)
     = Inr (x # xs)"
    by (simp add: cacheDirectory_def env_or_def)
  show "cacheDirectory join (env\<lparr>process_platform := Win32, LOCALAPPDATA := Some []\<rparr>)
     = Inr (join [homedir env, ''AppData'', ''Local''])"
    by (simp add: cacheDirectory_def env_or_def)
  show "cacheDirectory join (env\<lparr>process_platform := Win32, LOCALAPPDATA := None\<rparr>)
     = Inr (join [homedir env, ''AppData'', ''Local''])"
    by (simp add: cacheDirectory_def env_or_def)
  show "cacheDirectory join (env\<lparr>process_platform := Other p\<rparr>) = Inl (UnsupportedPlatform p)"
    by (simp add: cacheDirectory_def)
  show "effectiveUserDataDir join mkdir env None b (Some ''default'')
     = effectiveUserDataDir join mkdir env None b None"
    by (cases "cacheDirectory join env")
      (simp_all add: effectiveUserDataDir_def createUserDataDir_def profileDirName_def
        profileSuffix_def)
  show "effectiveUserDataDir join mkdir env None b (Some [])
     = effectiveUserDataDir join mkdir env None b None"
    by (cases "cacheDirectory join env")
      (simp_all add: effectiveUserDataDir_def createUserDataDir_def profileDirName_def
        profileSuffix_def)
  show "factory_calls (snd (middleware provision init None)) = [Some ''default'']"
    by (simp add: middleware_def getOrCreate_def serverList_create_def create_finish_def
        factory_start_def reset_timer_def sessionId_of_def ctx_get_def init_def Let_def)
  show "factory_calls (snd (start_stdio provision init)) = [None]"
    by (simp add: start_stdio_def serverList_create_def create_finish_def factory_start_def
        init_def)
next
  assume a: "cacheDirectory join env = Inr c \<and>
    mkdir (join [c, ''ms-playwright'', profileDirName b sessionId])"
  then show "createUserDataDir join mkdir env b sessionId
        = Inr (join [c, ''ms-playwright'', profileDirName b sessionId])"
    by (simp add: createUserDataDir_def)
  from a show "effectiveUserDataDir join mkdir env None b sessionId
        = Inr (join [c, ''ms-playwright'', profileDirName b sessionId])"
    by (simp add: effectiveUserDataDir_def createUserDataDir_def)
next
  assume "cacheDirectory join env = Inr c \<and>
    mkdir (join [c, ''ms-playwright'', profileDirName b sessionId])"
  then show "serverFactory join mkdir env None b createServer sessionId
        = Inr (createServer (join [c, ''ms-playwright'', profileDirName b sessionId]))"
    by (simp add: serverFactory_def effectiveUserDataDir_def createUserDataDir_def)
next
  assume "cacheDirectory join env = Inr c \<and>
    \<not> mkdir (join [c, ''ms-playwright'', profileDirName b sessionId])"
  then show "effectiveUserDataDir join mkdir env None b sessionId = Inl MkdirFailed"
    by (simp add: effectiveUserDataDir_def createUserDataDir_def)
next
  assume "cacheDirectory join env = Inl e"
  then show "effectiveUserDataDir join mkdir env None b sessionId = Inl e"
    by (simp add: effectiveUserDataDir_def createUserDataDir_def)
qed

theorem profile_directory_of_session_witness:
  "cacheDirectory slash_join linux_env = Inr ''/cache'' \<and>
   effectiveUserDataDir slash_join (\<lambda>d. True) linux_env None Chromium (Some ''abc'')
     = Inr ''/cache/ms-playwright/mcp-chromium-profile-abc'' \<and>
   effectiveUserDataDir slash_join (\<lambda>d. True) linux_env None Chromium (Some ''default'')
     = Inr ''/cache/ms-playwright/mcp-chromium-profile'' \<and>
   effectiveUserDataDir slash_join (\<lambda>d. True) linux_env None Chromium None
     = Inr ''/cache/ms-playwright/mcp-chromium-profile'' \<and>
   effectiveUserDataDir slash_join (\<lambda>d. False) linux_env None Chromium (Some ''abc'')
     = Inl MkdirFailed \<and>
   serverFactory slash_join (\<lambda>d. True) linux_env None Chromium (\<lambda>d. d) (Some ''abc'')
     = Inr ''/cache/ms-playwright/mcp-chromium-profile-abc'' \<and>
   cacheDirectory slash_join (linux_env\<lparr>process_platform := Other ''aix''\<rparr>)
     = Inl (UnsupportedPlatform ''aix'') \<and>
   effectiveUserDataDir slash_join (\<lambda>d. True) (linux_env\<lparr>process_platform := Other ''aix''\<rparr>)
       None Chromium (Some ''abc'')
     = Inl (UnsupportedPlatform ''aix'')"
proof -
  let ?yes = "\<lambda>d::string. True"
  let ?no = "\<lambda>d::string. False"
  let ?aix = "linux_env\<lparr>process_platform := Other ''aix''\<rparr>"
  have c: "cacheDirectory slash_join linux_env = Inr ''/cache''"
    by (simp add: cacheDirectory_def env_or_def linux_env_def)
  have x: "cacheDirectory slash_join ?aix = Inl (UnsupportedPlatform ''aix'')"
    by (simp add: cacheDirectory_def linux_env_def)
  note t = profile_directory_of_session
    [where b = Chromium and join = slash_join and createServer = "\<lambda>d::string. d"]
  from t [where env = linux_env and c = "''/cache''" and mkdir = ?yes
            and sessionId = "Some ''abc''"] c
  have 1: "effectiveUserDataDir slash_join ?yes linux_env None Chromium (Some ''abc'')
     = Inr (slash_join [''/cache'', ''ms-playwright'', profileDirName Chromium (Some ''abc'')])"
    and 6: "serverFactory slash_join ?yes linux_env None Chromium (\<lambda>d. d) (Some ''abc'')
     = Inr (slash_join [''/cache'', ''ms-playwright'', profileDirName Chromium (Some ''abc'')])"
    by simp_all
  from t [where env = linux_env and c = "''/cache''" and mkdir = ?yes
            and sessionId = "Some ''default''"] c
  have 2: "effectiveUserDataDir slash_join ?yes linux_env None Chromium (Some ''default'')
     = Inr (slash_join [''/cache'', ''ms-playwright'',
              profileDirName Chromium (Some ''default'')])"
    by simp
  from t [where env = linux_env and c = "''/cache''" and mkdir = ?yes and sessionId = None] c
  have 3: "effectiveUserDataDir slash_join ?yes linux_env None Chromium None
     = Inr (slash_join [''/cache'', ''ms-playwright'', profileDirName Chromium None])"
    by simp
  from t [where env = linux_env and c = "''/cache''" and mkdir = ?no
            and sessionId = "Some ''abc''"] c
  have 4: "effectiveUserDataDir slash_join ?no linux_env None Chromium (Some ''abc'')
     = Inl MkdirFailed"
    by simp
  from t [where env = ?aix and mkdir = ?yes and sessionId = "Some ''abc''"
            and e = "UnsupportedPlatform ''aix''"] x
  have 5: "effectiveUserDataDir slash_join ?yes ?aix None Chromium (Some ''abc'')
     = Inl (UnsupportedPlatform ''aix'')"
    by simp
  from c x 1 2 3 4 5 6 show ?thesis
    by (simp add: profileDirName_def profileSuffix_def)
qed

subsection \<open>Unknown tools\<close>

text \<open>
  C5, as the code has it. A \<open>POST /tools/<toolName>\<close> whose body the body parser has
  accepted and whose tool name no registered tool has is answered, once the session
  middleware has given it a server, with status 500 and the envelope
  \<open>{success: false, error: 'Tool "<toolName>" not found'}\<close>; no handler runs, and the state
  is the one the session middleware left. A \<open>POST\<close> whose body the parser rejects is
  answered with the parser's status and no envelope; the session middleware and the
  route do not run.
\<close>

theorem unknown_tool_error_envelope:
  assumes "toolName \<notin> set (map (\<lambda>tool. name (schema tool)) tools)"
  shows "post_tool tools st server toolName body
           = ((500, Failure (''Tool '' @ dquote @ toolName @ dquote @ '' not found'')), st) \<and>
         (req_method req = POST \<and> req_path req = ToolsPath toolName \<and>
          req_body req = Parsed body \<and>
          fst (middleware provision st0 (session_header req)) = Inr (server, sessionId) \<longrightarrow>
            serve provision version port tools st0 req
              = (ToolResponse
                   (500, Failure (''Tool '' @ dquote @ toolName @ dquote @ '' not found'')),
                 snd (middleware provision st0 (session_header req)))) \<and>
         (req_method req = POST \<and> req_body req = Unparsable status \<longrightarrow>
            serve provision version port tools st0 req = (KoaError status, st0))"
proof -
  from assms have "\<not> (\<exists>tool\<in>set tools. name (schema tool) = toolName)" by auto
  then have none: "find (\<lambda>tool. name (schema tool) = toolName) tools = None"
    by (simp add: find_None_iff)
  have post: "\<And>st. post_tool tools st server toolName body
           = ((500, Failure (''Tool '' @ dquote @ toolName @ dquote @ '' not found'')), st)"
    by (simp add: post_tool_def callTool_def envelope_of_def error_text_def new_Error_def
        dquote_def none)
  show ?thesis
  proof (intro conjI impI)
    show "post_tool tools st server toolName body
           = ((500, Failure (''Tool '' @ dquote @ toolName @ dquote @ '' not found'')), st)"
      by (rule post)
  next
    assume a: "req_method req = POST \<and> req_path req = ToolsPath toolName \<and>
          req_body req = Parsed body \<and>
          fst (middleware provision st0 (session_header req)) = Inr (server, sessionId)"
    then obtain st1 where m: "middleware provision st0 (session_header req)
                                = (Inr (server, sessionId), st1)"
      by (cases "middleware provision st0 (session_header req)") simp
    from a have r: "match_route (req_method req) (req_path req) body = PostTool toolName body"
      by (simp add: match_route_def)
    from a show "serve provision version port tools st0 req
              = (ToolResponse
                   (500, Failure (''Tool '' @ dquote @ toolName @ dquote @ '' not found'')),
                 snd (middleware provision st0 (session_header req)))"
      by (simp add: serve_def m match_route_def dispatch_def post)
  next
    assume "req_method req = POST \<and> req_body req = Unparsable status"
    then show "serve provision version port tools st0 req = (KoaError status, st0)"
      by (simp add: serve_def)
  qed
qed

theorem unknown_tool_error_envelope_witness:
  "''not_a_real_tool'' \<notin> set (map (\<lambda>tool. name (schema tool)) [navigate_tool]) \<and>
   fst (middleware (\<lambda>k. True) init None) = Inr (0, ''default'') \<and>
   fst (serve (\<lambda>k. True) ''0.0.10'' ''8080'' [navigate_tool] init
          \<lparr>req_method = POST, req_path = ToolsPath ''not_a_real_tool'', session_header = None,
           preflight_headers = False, req_body = Parsed (Some [])\<rparr>)
     = ToolResponse
         (500, Failure (''Tool '' @ dquote @ ''not_a_real_tool'' @ dquote @ '' not found'')) \<and>
   serve (\<lambda>k. True) ''0.0.10'' ''8080'' [navigate_tool] init
          \<lparr>req_method = POST, req_path = ToolsPath ''not_a_real_tool'', session_header = None,
           preflight_headers = False, req_body = Unparsable 413\<rparr>
     = (KoaError 413, init)"
proof -
  let ?req = "\<lparr>req_method = POST, req_path = ToolsPath ''not_a_real_tool'',
               session_header = None, preflight_headers = False,
               req_body = Parsed (Some [])\<rparr>"
  let ?bad = "\<lparr>req_method = POST, req_path = ToolsPath ''not_a_real_tool'',
               session_header = None, preflight_headers = False,
               req_body = Unparsable 413\<rparr>"
  have a: "''not_a_real_tool'' \<notin> set (map (\<lambda>tool. name (schema tool)) [navigate_tool])"
    by (simp add: navigate_tool_def)
  have b: "fst (middleware (\<lambda>k. True) init None) = Inr (0, ''default'')"
    by (simp add: middleware_def getOrCreate_def serverList_create_def create_finish_def
        factory_start_def reset_timer_def sessionId_of_def ctx_get_def init_def Let_def)
  from unknown_tool_error_envelope [OF a, of init 0 "Some []" ?req "\<lambda>k. True" init
      "''default''" "''0.0.10''" "''8080''"] b
  have 1: "fst (serve (\<lambda>k. True) ''0.0.10'' ''8080'' [navigate_tool] init ?req)
     = ToolResponse
         (500, Failure (''Tool '' @ dquote @ ''not_a_real_tool'' @ dquote @ '' not found''))"
    by simp
  from unknown_tool_error_envelope [OF a, of init 0 "Some []" ?bad "\<lambda>k. True" init
      "''default''" "''0.0.10''" "''8080''" 413]
  have 2: "serve (\<lambda>k. True) ''0.0.10'' ''8080'' [navigate_tool] init ?bad = (KoaError 413, init)"
    by simp
  from a b 1 2 show ?thesis by simp
qed

text \<open>
  C5 as stated fails for a \<open>POST\<close> whose body is not valid JSON: with the \<open>default\<close>
  session bound, a \<open>POST /tools/not_a_real_tool\<close> with such a body is answered with the
  body parser's status 400 and no envelope.
\<close>

theorem unknown_tool_counterexample:
  "map_of (sessions first_request) (sessionId_of None) = Some 0 \<and>
   ''not_a_real_tool'' \<notin> set (map (\<lambda>tool. name (schema tool)) [navigate_tool]) \<and>
   serve (\<lambda>k. True) ''0.0.10'' ''8080'' [navigate_tool] first_request
     \<lparr>req_method = POST, req_path = ToolsPath ''not_a_real_tool'', session_header = None,
      preflight_headers = False, req_body = Unparsable 400\<rparr>
     = (KoaError 400, first_request)"
  by (simp add: serve_def navigate_tool_def first_request_eq sessionId_of_def ctx_get_def
      init_def)




text \<open>
  A preflight and a request whose body the parser rejects never reach the session
  middleware: no session is created and no timer is armed for them.
\<close>

lemma serve_stopped_before_session_middleware:
  "(req_method req = OPTIONS \<and> preflight_headers req \<longrightarrow>
      serve provision version port tools st req = (CorsPreflight 204, st)) \<and>
   (\<not> (req_method req = OPTIONS \<and> preflight_headers req) \<and>
    req_body req = Unparsable status \<longrightarrow>
      serve provision version port tools st req = (KoaError status, st))"
  by (simp add: serve_def)

text \<open>
  What the close of a connection does while its \<open>GET\<close> is still awaiting the factory: no
  listener is registered yet, so nothing; the server made afterwards stays in the
  registry, is never closed, and its session id stays answerable.
\<close>

lemma sse_close_during_create:
  "sse_close release (sse_accept init 7 ''abc'') 7 = sse_accept init 7 ''abc'' \<and>
   servers (snd (sse_bound (\<lambda>k. True)
                   (sse_close release (sse_accept init 7 ''abc'') 7) 7 ''abc'')) = [0] \<and>
   closes (snd (sse_bound (\<lambda>k. True)
                  (sse_close release (sse_accept init 7 ''abc'') 7) 7 ''abc'')) = [] \<and>
   fst (sse_post (snd (sse_bound (\<lambda>k. True)
                         (sse_close release (sse_accept init 7 ''abc'') 7) 7 ''abc''))
          (Some ''abc''))
     = PostHandled 7"
  by (simp add: sse_close_def sse_accept_def sse_bound_def sse_post_def create_finish_def
      factory_start_def init_def)

end
